theory Spec2Isabelle
  imports Complex_Main "HOL-Library.AList"
begin

section \<open>JavaScript values\<close>

text \<open>
  The payloads of the socket messages are JSON values. The fields that the handlers of
  \<^verbatim>\<open>server/server.js\<close> read are taken to hold primitives (an array or an object
  as the value of a field, which the messages of the clients never have, is left out). A JavaScript number is \<open>NaN\<close>, an infinity or a finite value; the
  finite values are taken as rationals (rounding to doubles plays no part in the
  handlers, and \<open>-0\<close> is identified with \<open>0\<close>: both are falsy).
\<close>

datatype number = NaN | Num rat | PosInfinity | NegInfinity

datatype jsval = JUndefined | JNull | JBool bool | JNum number | JStr string

text \<open>Truthiness, as tested by \<^verbatim>\<open>||\<close>, \<^verbatim>\<open>&&\<close>, \<^verbatim>\<open>!\<close> and \<^verbatim>\<open>if\<close>.\<close>

fun truthy :: "jsval \<Rightarrow> bool" where
  "truthy JUndefined = False"
| "truthy JNull = False"
| "truthy (JBool b) = b"
| "truthy (JNum n) = (n \<noteq> NaN \<and> n \<noteq> Num 0)"
| "truthy (JStr s) = (s \<noteq> [])"

text \<open>\<^verbatim>\<open>a || b\<close> on values.\<close>

definition js_or :: "jsval \<Rightarrow> jsval \<Rightarrow> jsval" where
  "js_or a b = (if truthy a then a else b)"

text \<open>
  \<^verbatim>\<open>Number(v)\<close>. The conversion of a string to a number is the language's own
  (StringToNumber); it is the parameter \<open>N\<close> of everything below, so that every result
  holds whatever it computes.
\<close>

fun to_number :: "(string \<Rightarrow> number) \<Rightarrow> jsval \<Rightarrow> number" where
  "to_number N JUndefined = NaN"
| "to_number N JNull = Num 0"
| "to_number N (JBool b) = (if b then Num 1 else Num 0)"
| "to_number N (JNum n) = n"
| "to_number N (JStr s) = N s"

text \<open>
  \<^verbatim>\<open>typeof v === 'number' ? v : Number(v) || 0\<close>, the normalisation of one
  acceleration axis.
\<close>

definition axis :: "(string \<Rightarrow> number) \<Rightarrow> jsval \<Rightarrow> number" where
  "axis N v =
     (case v of
        JNum n \<Rightarrow> n
      | _ \<Rightarrow> (if truthy (JNum (to_number N v)) then to_number N v else Num 0))"

section \<open>Records of the registry, rows and messages\<close>

text \<open>
  An entry of the registry is the object
  \<^verbatim>\<open>{ deviceId, ip, socketId, lastSeen, lat, lon }\<close>; a field that was never
  assigned reads \<open>JUndefined\<close>.
\<close>

record device =
  deviceId :: jsval
  ip :: jsval
  socketId :: jsval
  lastSeen :: jsval
  lat :: jsval
  lon :: jsval

text \<open>The row \<^verbatim>\<open>{ time, x, y, z, lat, lon, ip }\<close> built from one sample.\<close>

record row =
  row_time :: jsval
  row_x :: number
  row_y :: number
  row_z :: number
  row_lat :: jsval
  row_lon :: jsval
  row_ip :: jsval

text \<open>
  The payload of a \<^verbatim>\<open>register\<close> or \<^verbatim>\<open>sensor-data\<close> message, when it is
  truthy: the fields the handlers read, \<open>JUndefined\<close> where the payload has none.
  A falsy payload (none at all, \<^verbatim>\<open>null\<close>) is \<open>None\<close>.
\<close>

record payload =
  p_deviceId :: jsval
  p_time :: jsval
  p_x :: jsval
  p_y :: jsval
  p_z :: jsval
  p_lat :: jsval
  p_lon :: jsval

text \<open>
  What a handler reads from outside the program: the clock
  (\<^verbatim>\<open>new Date().toISOString()\<close>, read once by \<^verbatim>\<open>register\<close> and
  \<^verbatim>\<open>disconnect\<close> and up to twice by \<^verbatim>\<open>sensor-data\<close>) and the value
  \<^verbatim>\<open>uuidv4()\<close> returns when it is called.
\<close>

record env =
  clock :: string
  clock2 :: string
  uuid :: string

text \<open>
  A message handed to Socket.IO: \<^verbatim>\<open>socket.emit\<close> addresses one connection,
  \<^verbatim>\<open>io.emit\<close> all of them. A message carries values: it is serialised when it is
  emitted.
\<close>

datatype msg =
    Devices "device list"
  | Registered jsval
  | SensorDataMsg jsval row

datatype target = ToSocket string | ToAll

text \<open>
  Per connection: the variable \<^verbatim>\<open>ip\<close> of the connection callback (the result
  of \<^verbatim>\<open>clientIpFromSocket\<close>, taken as given) and
  \<^verbatim>\<open>socket.data.deviceId\<close>.
\<close>

record conn =
  c_ip :: string
  c_deviceId :: jsval

section \<open>The state of the server\<close>

text \<open>
  The registry \<^verbatim>\<open>devices\<close> is a \<^verbatim>\<open>Map\<close> from device id to an object.
  Objects are mutated in place by two handlers, so they live in a store: \<open>heap\<close> is
  the list of all objects allocated so far, an object's address is its index, and the
  map holds addresses, in insertion order. \<open>persisted\<close> is the sequence of calls
  \<^verbatim>\<open>appendCsv(deviceId, row)\<close> and \<open>outbox\<close> the sequence of emitted
  messages, oldest first. Connections are keyed by \<^verbatim>\<open>socket.id\<close>.
\<close>

record state =
  heap :: "device list"
  devices :: "(jsval \<times> nat) list"
  conns :: "string \<Rightarrow> conn option"
  persisted :: "(jsval \<times> row) list"
  outbox :: "(target \<times> msg) list"

definition init :: state where
  "init = \<lparr>heap = [], devices = [], conns = Map.empty, persisted = [], outbox = []\<rparr>"

text \<open>\<^verbatim>\<open>Array.from(devices.values())\<close>: a new array of the same objects.\<close>

definition snapshot :: "state \<Rightarrow> nat list" where
  "snapshot s = map snd (devices s)"

text \<open>What an array of objects holds, read in a given store.\<close>

definition serialize :: "device list \<Rightarrow> nat list \<Rightarrow> device list" where
  "serialize h refs = map (\<lambda>r. h ! r) refs"

definition devices_msg :: "state \<Rightarrow> msg" where
  "devices_msg s = Devices (serialize (heap s) (snapshot s))"

text \<open>\<^verbatim>\<open>res.json(Array.from(devices.values()))\<close> of \<^verbatim>\<open>GET /devices\<close>.\<close>

definition list_devices :: "state \<Rightarrow> device list" where
  "list_devices s = serialize (heap s) (snapshot s)"

text \<open>The record stored under a key, if any.\<close>

definition lookup :: "state \<Rightarrow> jsval \<Rightarrow> device option" where
  "lookup s k = map_option (\<lambda>r. heap s ! r) (map_of (devices s) k)"

section \<open>The handlers\<close>

definition synth_id :: "string \<Rightarrow> jsval" where
  "synth_id u = JStr (''dev_'' @ take 8 u)"

text \<open>\<^verbatim>\<open>(socket.handshake.query && socket.handshake.query.role) || 'device'\<close>\<close>

definition role_of :: "string option \<Rightarrow> string" where
  "role_of q = (case q of None \<Rightarrow> ''device'' | Some r \<Rightarrow> if r = [] then ''device'' else r)"

definition connect :: "string \<Rightarrow> string option \<Rightarrow> string \<Rightarrow> state \<Rightarrow> state" where
  "connect sid q addr s =
     (let s1 = s\<lparr>conns := (conns s)(sid \<mapsto> \<lparr>c_ip = addr, c_deviceId = JUndefined\<rparr>)\<rparr>
      in if role_of q = ''admin''
         then s1\<lparr>outbox := outbox s1 @ [(ToSocket sid, devices_msg s1)]\<rparr>
         else s1)"

text \<open>\<^verbatim>\<open>(payload && payload.deviceId) || `dev_${uuidv4().slice(0, 8)}`\<close>\<close>

definition register_id :: "payload option \<Rightarrow> env \<Rightarrow> jsval" where
  "register_id pl e =
     js_or (case pl of None \<Rightarrow> JUndefined | Some p \<Rightarrow> p_deviceId p) (synth_id (uuid e))"

text \<open>The object \<^verbatim>\<open>entry\<close> of the \<^verbatim>\<open>register\<close> handler.\<close>

definition register_entry :: "state \<Rightarrow> conn \<Rightarrow> string \<Rightarrow> jsval \<Rightarrow> env \<Rightarrow> device" where
  "register_entry s c sid d e =
     (let existing = lookup s d
      in \<lparr>deviceId = d, ip = JStr (c_ip c), socketId = JStr sid, lastSeen = JStr (clock e),
          lat = js_or (case existing of None \<Rightarrow> JUndefined | Some x \<Rightarrow> lat x) JNull,
          lon = js_or (case existing of None \<Rightarrow> JUndefined | Some x \<Rightarrow> lon x) JNull\<rparr>)"

definition register :: "string \<Rightarrow> payload option \<Rightarrow> env \<Rightarrow> state \<Rightarrow> state" where
  "register sid pl e s =
     (case conns s sid of
        None \<Rightarrow> s
      | Some c \<Rightarrow>
          (let d = register_id pl e;
               entry = register_entry s c sid d e;
               s1 = s\<lparr>heap := heap s @ [entry],
                      devices := AList.update d (length (heap s)) (devices s),
                      conns := (conns s)(sid \<mapsto> c\<lparr>c_deviceId := d\<rparr>)\<rparr>
           in s1\<lparr>outbox := outbox s @ [(ToSocket sid, Registered d), (ToAll, devices_msg s1)]\<rparr>))"

text \<open>
  \<^verbatim>\<open>socket.data.deviceId || payload.deviceId || `dev_${uuidv4().slice(0,8)}`\<close>
\<close>

definition sample_id :: "conn \<Rightarrow> payload \<Rightarrow> env \<Rightarrow> jsval" where
  "sample_id c p e = js_or (c_deviceId c) (js_or (p_deviceId p) (synth_id (uuid e)))"

definition make_row :: "(string \<Rightarrow> number) \<Rightarrow> conn \<Rightarrow> payload \<Rightarrow> env \<Rightarrow> row" where
  "make_row N c p e =
     \<lparr>row_time = js_or (p_time p) (JStr (clock e)),
      row_x = axis N (p_x p), row_y = axis N (p_y p), row_z = axis N (p_z p),
      row_lat = js_or (p_lat p) (JStr ''''), row_lon = js_or (p_lon p) (JStr ''''),
      row_ip = JStr (c_ip c)\<rparr>"

text \<open>
  \<^verbatim>\<open>devices.get(deviceId) || { deviceId, ip }\<close>: the address of the object and
  the store, with the new object allocated when the key is unknown.
\<close>

definition get_or_new :: "state \<Rightarrow> conn \<Rightarrow> jsval \<Rightarrow> nat \<times> device list" where
  "get_or_new s c d =
     (case map_of (devices s) d of
        Some r \<Rightarrow> (r, heap s)
      | None \<Rightarrow>
          (length (heap s),
           heap s @ [\<lparr>deviceId = d, ip = JStr (c_ip c), socketId = JUndefined,
                      lastSeen = JUndefined, lat = JUndefined, lon = JUndefined\<rparr>]))"

definition sensor_data ::
  "(string \<Rightarrow> number) \<Rightarrow> string \<Rightarrow> payload option \<Rightarrow> env \<Rightarrow> state \<Rightarrow> state" where
  "sensor_data N sid pl e s =
     (case pl of
        None \<Rightarrow> s
      | Some p \<Rightarrow>
          (case conns s sid of
             None \<Rightarrow> s
           | Some c \<Rightarrow>
               (let d = sample_id c p e;
                    rw = make_row N c p e;
                    r = fst (get_or_new s c d);
                    h = snd (get_or_new s c d);
                    dev = (h ! r)\<lparr>lastSeen := JStr (clock2 e), lat := row_lat rw,
                                   lon := row_lon rw, socketId := JStr sid\<rparr>
                in s\<lparr>heap := h[r := dev],
                     devices := AList.update d r (devices s),
                     persisted := persisted s @ [(d, rw)],
                     outbox := outbox s @ [(ToAll, SensorDataMsg d rw)]\<rparr>)))"

text \<open>
  The \<^verbatim>\<open>disconnect\<close> handler; afterwards the connection is gone, and no
  further message arrives on it.
\<close>

definition disconnect :: "string \<Rightarrow> env \<Rightarrow> state \<Rightarrow> state" where
  "disconnect sid e s =
     (case conns s sid of
        None \<Rightarrow> s
      | Some c \<Rightarrow>
          (let d = c_deviceId c;
               s0 = s\<lparr>conns := (conns s)(sid := None)\<rparr>
           in case (if truthy d then map_of (devices s) d else None) of
                None \<Rightarrow> s0
              | Some r \<Rightarrow>
                  (let dev = (heap s ! r)\<lparr>socketId := JNull, lastSeen := JStr (clock e)\<rparr>;
                       s1 = s0\<lparr>heap := (heap s)[r := dev],
                               devices := AList.update d r (devices s)\<rparr>
                   in s1\<lparr>outbox := outbox s @ [(ToAll, devices_msg s1)]\<rparr>)))"

section \<open>Events and runs\<close>

text \<open>
  The events of the transport: a connection opens (with its \<^verbatim>\<open>socket.id\<close>, the
  \<^verbatim>\<open>role\<close> of its handshake query if any, and its address), a message arrives
  on a connection, a connection closes. The handlers of a connection exist from its
  opening to its disconnect: an event on a connection that is not open changes nothing.
\<close>

datatype event =
    Connect string "string option" string
  | Register string "payload option" env
  | SensorData string "payload option" env
  | Disconnect string env

fun step :: "(string \<Rightarrow> number) \<Rightarrow> state \<Rightarrow> event \<Rightarrow> state" where
  "step N s (Connect sid q addr) = connect sid q addr s"
| "step N s (Register sid pl e) = register sid pl e s"
| "step N s (SensorData sid pl e) = sensor_data N sid pl e s"
| "step N s (Disconnect sid e) = disconnect sid e s"

definition run :: "(string \<Rightarrow> number) \<Rightarrow> state \<Rightarrow> event list \<Rightarrow> state" where
  "run N s evs = foldl (step N) s evs"

text \<open>
  The invariant of the store: the keys of the map are distinct, no two keys hold the
  same object, and every address in the map is allocated.
\<close>

definition store_ok :: "state \<Rightarrow> bool" where
  "store_ok s \<longleftrightarrow>
     distinct (map fst (devices s)) \<and> distinct (map snd (devices s)) \<and>
     (\<forall>r \<in> set (map snd (devices s)). r < length (heap s))"

section \<open>Vocabulary of the properties\<close>

text \<open>An event is a \<^verbatim>\<open>register\<close> whose payload carries the device id \<open>d\<close>.\<close>

fun registers :: "jsval \<Rightarrow> event \<Rightarrow> bool" where
  "registers d (Register sid (Some p) e) = (p_deviceId p = d)"
| "registers d _ = False"

text \<open>The connection an event belongs to.\<close>

fun socket_of :: "event \<Rightarrow> string" where
  "socket_of (Connect sid q addr) = sid"
| "socket_of (Register sid pl e) = sid"
| "socket_of (SensorData sid pl e) = sid"
| "socket_of (Disconnect sid e) = sid"

text \<open>An event is a \<^verbatim>\<open>register\<close> on the connection \<open>sid\<close>.\<close>

fun registers_on :: "string \<Rightarrow> event \<Rightarrow> bool" where
  "registers_on sid (Register sid' pl e) = (sid' = sid)"
| "registers_on sid _ = False"

text \<open>
  No device id is bound to the connection: \<^verbatim>\<open>socket.data.deviceId\<close> is falsy
  (or the connection is closed).
\<close>

definition unbound :: "string \<Rightarrow> state \<Rightarrow> bool" where
  "unbound sid s = (case conns s sid of None \<Rightarrow> True | Some c \<Rightarrow> \<not> truthy (c_deviceId c))"



text \<open>A field that is missing (\<^verbatim>\<open>undefined\<close>) or \<^verbatim>\<open>null\<close>.\<close>

definition absent :: "jsval \<Rightarrow> bool" where
  "absent v \<longleftrightarrow> v = JUndefined \<or> v = JNull"

text \<open>
  Values used in the examples: a payload with no field, payloads that carry only the
  device id \<open>A\<close> or \<open>B\<close>, clock readings, and a conversion of strings for examples that
  hold no numeric string.
\<close>

definition payload_A :: payload where
  "payload_A = \<lparr>p_deviceId = JStr ''A'', p_time = JUndefined, p_x = JUndefined,
     p_y = JUndefined, p_z = JUndefined, p_lat = JUndefined, p_lon = JUndefined\<rparr>"

definition payload_B :: payload where
  "payload_B = \<lparr>p_deviceId = JStr ''B'', p_time = JUndefined, p_x = JUndefined,
     p_y = JUndefined, p_z = JUndefined, p_lat = JUndefined, p_lon = JUndefined\<rparr>"

definition no_numeric_string :: "string \<Rightarrow> number" where
  "no_numeric_string str = NaN"

definition no_fields :: payload where
  "no_fields = \<lparr>p_deviceId = JUndefined, p_time = JUndefined, p_x = JUndefined,
     p_y = JUndefined, p_z = JUndefined, p_lat = JUndefined, p_lon = JUndefined\<rparr>"

definition env0 :: env where
  "env0 = \<lparr>clock = ''2024-01-01T00:00:00.000Z'', clock2 = ''2024-01-01T00:00:00.001Z'',
     uuid = ''0a1b2c3d-0000-4000-8000-000000000000''\<rparr>"

definition env1 :: env where
  "env1 = \<lparr>clock = ''2024-01-01T00:00:05.000Z'', clock2 = ''2024-01-01T00:00:05.001Z'',
     uuid = ''9f8e7d6c-0000-4000-8000-000000000000''\<rparr>"

definition env2 :: env where
  "env2 = \<lparr>clock = ''2024-01-01T00:00:09.000Z'', clock2 = ''2024-01-01T00:00:09.001Z'',
     uuid = ''5e4d3c2b-0000-4000-8000-000000000000''\<rparr>"

text \<open>
  A registry whose record \<open>A\<close> holds the coordinates \<open>(0, 0)\<close> as numbers, and an open
  connection. No run of the handlers leads to it: \<^verbatim>\<open>sensor-data\<close> stores the empty
  string for a coordinate \<open>0\<close>.
\<close>

definition origin_state :: state where
  "origin_state =
     \<lparr>heap = [\<lparr>deviceId = JStr ''A'', ip = JStr ''10.0.0.1'', socketId = JNull,
               lastSeen = JStr ''2024-01-01T00:00:00.000Z'',
               lat = JNum (Num 0), lon = JNum (Num 0)\<rparr>],
      devices = [(JStr ''A'', 0)],
      conns = [''s1'' \<mapsto> \<lparr>c_ip = ''10.0.0.1'', c_deviceId = JUndefined\<rparr>],
      persisted = [], outbox = []\<rparr>"

text \<open>Every record of the registry carries, as its \<open>deviceId\<close>, the key it is stored under.\<close>

definition keyed :: "state \<Rightarrow> bool" where
  "keyed s \<longleftrightarrow> (\<forall>kr \<in> set (devices s). deviceId (heap s ! snd kr) = fst kr)"

section \<open>The store invariant\<close>

lemma update_snd_subset:
  "set (map snd (AList.update k v al)) \<subseteq> insert v (set (map snd al))"
  by (induction al) auto

lemma distinct_snd_update:
  "distinct (map snd al) \<Longrightarrow> v \<notin> set (map snd al) \<Longrightarrow> distinct (map snd (AList.update k v al))"
proof (induction al)
  case Nil
  then show ?case by simp
next
  case (Cons p ps)
  have "set (map snd (AList.update k v ps)) \<subseteq> insert v (set (map snd ps))"
    by (rule update_snd_subset)
  with Cons show ?case by auto
qed

lemma store_ok_init: "store_ok init"
  by (simp add: store_ok_def init_def)

lemma store_ok_alloc:
  assumes "store_ok s"
  shows "store_ok (s\<lparr>heap := heap s @ [x], devices := AList.update d (length (heap s)) (devices s)\<rparr>)"
proof -
  have fresh: "length (heap s) \<notin> set (map snd (devices s))"
    using assms by (auto simp: store_ok_def)
  have sub: "set (map snd (AList.update d (length (heap s)) (devices s)))
      \<subseteq> insert (length (heap s)) (set (map snd (devices s)))"
    by (rule update_snd_subset)
  have "distinct (map fst (AList.update d (length (heap s)) (devices s)))"
    using assms by (simp add: store_ok_def distinct_update)
  moreover have "distinct (map snd (AList.update d (length (heap s)) (devices s)))"
    using assms fresh by (simp add: store_ok_def distinct_snd_update)
  moreover have "\<forall>r \<in> set (map snd (AList.update d (length (heap s)) (devices s))). r < length (heap s @ [x])"
    using sub assms by (fastforce simp: store_ok_def)
  ultimately show ?thesis by (simp add: store_ok_def)
qed

lemma store_ok_connect: "store_ok s \<Longrightarrow> store_ok (connect sid q addr s)"
  by (simp add: connect_def Let_def store_ok_def)

lemma store_ok_register: "store_ok s \<Longrightarrow> store_ok (register sid pl e s)"
  using store_ok_alloc [of s]
  by (auto simp: register_def Let_def store_ok_def split: option.splits)

lemma store_ok_sensor_data: "store_ok s \<Longrightarrow> store_ok (sensor_data N sid pl e s)"
  using store_ok_alloc [of s]
  by (auto simp: sensor_data_def get_or_new_def Let_def store_ok_def update_triv split: option.splits)

lemma store_ok_disconnect: "store_ok s \<Longrightarrow> store_ok (disconnect sid e s)"
  by (auto simp: disconnect_def Let_def store_ok_def update_triv split: option.splits if_splits)

lemma store_ok_step: "store_ok s \<Longrightarrow> store_ok (step N s ev)"
  by (cases ev) (simp_all add: store_ok_connect store_ok_register store_ok_sensor_data store_ok_disconnect)

lemma store_ok_run: "store_ok s \<Longrightarrow> store_ok (run N s evs)"
  unfolding run_def by (induction evs arbitrary: s) (simp_all add: store_ok_step)

lemma run_Nil: "run N s [] = s"
  by (simp add: run_def)
lemma run_Cons: "run N s (ev # evs) = run N (step N s ev) evs"
  by (simp add: run_def)
lemma run_snoc: "run N s (evs @ [ev]) = step N (run N s evs) ev"
  by (simp add: run_def)

section \<open>Reading the registry after a handler\<close>

lemma store_ok_ref:
  "store_ok s \<Longrightarrow> map_of (devices s) k = Some r \<Longrightarrow> r < length (heap s)"
  unfolding store_ok_def by (force dest: map_of_SomeD)

lemma lookup_alloc_same:
  "lookup (s\<lparr>heap := heap s @ [x], devices := AList.update d (length (heap s)) (devices s)\<rparr>) d = Some x"
  by (simp add: lookup_def update_conv')

lemma lookup_alloc_other:
  assumes "store_ok s" "k \<noteq> d"
  shows "lookup (s\<lparr>heap := heap s @ [x], devices := AList.update d (length (heap s)) (devices s)\<rparr>) k = lookup s k"
proof (cases "map_of (devices s) k")
  case None
  then show ?thesis using assms by (simp add: lookup_def update_conv')
next
  case (Some r)
  then have "r < length (heap s)" using assms by (simp add: store_ok_ref)
  then show ?thesis using Some assms by (simp add: lookup_def update_conv' nth_append)
qed

lemma lookup_write_same:
  assumes "store_ok s" "map_of (devices s) d = Some r"
  shows "lookup (s\<lparr>heap := (heap s)[r := x], devices := AList.update d r (devices s)\<rparr>) d = Some x"
proof -
  have "r < length (heap s)" using assms by (simp add: store_ok_ref)
  then show ?thesis using assms by (simp add: lookup_def update_conv')
qed

lemma map_of_inj_snd:
  "distinct (map snd al) \<Longrightarrow> map_of al k = Some r \<Longrightarrow> map_of al k' = Some r \<Longrightarrow> k = k'"
proof (induction al)
  case Nil
  then show ?case by simp
next
  case (Cons p ps)
  then show ?case
    by (cases p) (force split: if_splits dest: map_of_SomeD)
qed

lemma lookup_write_other:
  assumes "store_ok s" "map_of (devices s) d = Some r" "k \<noteq> d"
  shows "lookup (s\<lparr>heap := (heap s)[r := x], devices := AList.update d r (devices s)\<rparr>) k = lookup s k"
proof (cases "map_of (devices s) k")
  case None
  then show ?thesis using assms by (simp add: lookup_def update_conv')
next
  case (Some r')
  have "r' \<noteq> r"
    using map_of_inj_snd [of "devices s" k r d] assms Some by (auto simp: store_ok_def)
  then show ?thesis using Some assms by (simp add: lookup_def update_conv')
qed

lemma register_heap_devices:
  "conns s sid = Some c \<Longrightarrow>
   register sid pl e s =
     s\<lparr>heap := heap s @ [register_entry s c sid (register_id pl e) e],
       devices := AList.update (register_id pl e) (length (heap s)) (devices s),
       conns := (conns s)(sid \<mapsto> c\<lparr>c_deviceId := register_id pl e\<rparr>),
       outbox := outbox s @ [(ToSocket sid, Registered (register_id pl e)),
         (ToAll, Devices (serialize (heap s @ [register_entry s c sid (register_id pl e) e])
            (map snd (AList.update (register_id pl e) (length (heap s)) (devices s)))))]\<rparr>"
  by (simp add: register_def Let_def devices_msg_def snapshot_def)

lemma lookup_register_same:
  "conns s sid = Some c \<Longrightarrow>
   lookup (register sid pl e s) (register_id pl e) = Some (register_entry s c sid (register_id pl e) e)"
  using lookup_alloc_same [where s = s and x = "register_entry s c sid (register_id pl e) e" and d = "register_id pl e"]
  by (simp add: register_heap_devices lookup_def)

lemma lookup_register_other:
  "store_ok s \<Longrightarrow> k \<noteq> register_id pl e \<Longrightarrow> lookup (register sid pl e s) k = lookup s k"
  using lookup_alloc_other [where s = s and k = k and d = "register_id pl e"]
  by (cases "conns s sid") (simp_all add: register_def Let_def lookup_def)

lemma conns_register:
  "conns (register sid pl e s) sid' \<noteq> None \<longleftrightarrow> conns s sid' \<noteq> None"
  by (cases "conns s sid") (auto simp: register_def Let_def)

lemma count_keys_one:
  "distinct (map fst al) \<Longrightarrow> map_of al k = Some v \<Longrightarrow> count_list (map fst al) k = 1"
proof (induction al)
  case Nil
  then show ?case by simp
next
  case (Cons p ps)
  show ?case
  proof (cases "fst p = k")
    case True
    with Cons.prems have "k \<notin> set (map fst ps)" by auto
    then have "count_list (map fst ps) k = 0" by simp
    with True show ?thesis by simp
  next
    case False
    with Cons show ?thesis by (cases p) auto
  qed
qed

section \<open>Registration under one device id\<close>

lemma registers_cases:
  assumes "registers d ev"
  obtains sid p e where "ev = Register sid (Some p) e" "p_deviceId p = d"
  using assms by (cases "(d, ev)" rule: registers.cases) auto

lemma register_id_truthy: "truthy (p_deviceId p) \<Longrightarrow> register_id (Some p) e = p_deviceId p"
  by (simp add: register_id_def js_or_def)

lemma registers_run_conns:
  assumes "\<forall>ev \<in> set evs. registers d ev"
  shows "conns (run N s evs) sid \<noteq> None \<longleftrightarrow> conns s sid \<noteq> None"
  using assms
proof (induction evs rule: rev_induct)
  case Nil
  show ?case by (simp add: run_Nil)
next
  case (snoc ev evs)
  then have "registers d ev" by simp
  then obtain sid' p e where "ev = Register sid' (Some p) e"
    by (rule registers_cases)
  with snoc show ?case
    by (simp add: run_snoc conns_register del: not_None_eq)
qed

lemma register_entry_fields:
  "deviceId (register_entry s c sid d e) = d"
  "socketId (register_entry s c sid d e) = JStr sid"
  "ip (register_entry s c sid d e) = JStr (c_ip c)"
  "lastSeen (register_entry s c sid d e) = JStr (clock e)"
  by (simp_all add: register_entry_def Let_def)

section \<open>Disconnect of a connection that never registered\<close>


lemma unbound_connect: "unbound sid (connect sid q addr s)"
  by (simp add: unbound_def connect_def Let_def)

lemma conns_sensor_data: "conns (sensor_data N sid pl e s) = conns s"
  by (simp add: sensor_data_def Let_def split: option.splits)

lemma unbound_step:
  assumes "unbound sid s" "\<not> registers_on sid ev"
  shows "unbound sid (step N s ev)"
proof (cases ev)
  case (Connect sid' q addr)
  then show ?thesis using assms(1)
    by (simp add: unbound_def connect_def Let_def)
next
  case (Register sid' pl e)
  with assms(2) have "sid' \<noteq> sid" by simp
  then show ?thesis using assms(1) Register
    by (simp add: unbound_def register_def Let_def split: option.splits)
next
  case (SensorData sid' pl e)
  then show ?thesis using assms(1)
    by (simp add: unbound_def conns_sensor_data)
next
  case (Disconnect sid' e)
  then show ?thesis using assms(1)
    by (simp add: unbound_def disconnect_def Let_def split: option.splits)
qed

lemma unbound_run:
  "unbound sid s \<Longrightarrow> \<forall>ev \<in> set evs. \<not> registers_on sid ev \<Longrightarrow> unbound sid (run N s evs)"
  by (induction evs arbitrary: s) (simp_all add: run_Nil run_Cons unbound_step)

lemma disconnect_unbound:
  assumes "unbound sid s"
  shows "disconnect sid e s = s\<lparr>conns := (conns s)(sid := None)\<rparr>"
proof (cases "conns s sid")
  case None
  then have "(conns s)(sid := None) = conns s" by (simp add: fun_upd_idem)
  with None show ?thesis by (simp add: disconnect_def)
next
  case (Some c)
  with assms have "\<not> truthy (c_deviceId c)" by (simp add: unbound_def)
  with Some show ?thesis by (simp add: disconnect_def Let_def)
qed

text \<open>Unfolding every handler, for the evaluation of concrete runs.\<close>

lemmas ev_defs = run_def init_def connect_def register_def sensor_data_def disconnect_def role_of_def
  register_id_def register_entry_def sample_id_def make_row_def get_or_new_def js_or_def synth_id_def
  devices_msg_def snapshot_def serialize_def lookup_def list_devices_def axis_def
  payload_A_def payload_B_def no_fields_def env0_def env1_def env2_def no_numeric_string_def Let_def

text \<open>
  C10. A connection is opened and never sends a \<^verbatim>\<open>register\<close> (it may send any
  number of \<^verbatim>\<open>sensor-data\<close> messages, and other connections may do anything).
  Its \<^verbatim>\<open>disconnect\<close> then leaves the store and the registry as they are (no
  \<open>socketId\<close> cleared, no \<open>lastSeen\<close> updated, every record reads as before), emits
  nothing (no \<^verbatim>\<open>devices\<close> broadcast) and persists nothing.
\<close>

theorem unregistered_disconnect_noop:
  assumes "\<forall>ev \<in> set evs. \<not> registers_on sid ev"
  shows "heap (disconnect sid e (run N (connect sid q addr s0) evs)) = heap (run N (connect sid q addr s0) evs) \<and>
         devices (disconnect sid e (run N (connect sid q addr s0) evs)) = devices (run N (connect sid q addr s0) evs) \<and>
         outbox (disconnect sid e (run N (connect sid q addr s0) evs)) = outbox (run N (connect sid q addr s0) evs) \<and>
         persisted (disconnect sid e (run N (connect sid q addr s0) evs)) = persisted (run N (connect sid q addr s0) evs) \<and>
         lookup (disconnect sid e (run N (connect sid q addr s0) evs)) = lookup (run N (connect sid q addr s0) evs)"
proof -
  have "unbound sid (run N (connect sid q addr s0) evs)"
    using unbound_connect assms by (rule unbound_run)
  then have "disconnect sid e (run N (connect sid q addr s0) evs) =
      (run N (connect sid q addr s0) evs)\<lparr>conns := (conns (run N (connect sid q addr s0) evs))(sid := None)\<rparr>"
    by (rule disconnect_unbound)
  then show ?thesis by (simp add: lookup_def fun_eq_iff)
qed

text \<open>
  A connection sends two samples and disconnects: the record of its first sample still
  carries its \<open>socketId\<close>.
\<close>

theorem unregistered_disconnect_noop_witness:
  "\<not> registers_on ''s1'' (SensorData ''s1'' (Some payload_A) env0) \<and>
   \<not> registers_on ''s1'' (SensorData ''s1'' (Some no_fields) env1) \<and>
   devices (disconnect ''s1'' env1 (run no_numeric_string (connect ''s1'' None ''10.0.0.1'' init)
     [SensorData ''s1'' (Some payload_A) env0, SensorData ''s1'' (Some no_fields) env1])) =
     [(JStr ''A'', 0), (JStr ''dev_9f8e7d6c'', 1)] \<and>
   map_option socketId (lookup (disconnect ''s1'' env1 (run no_numeric_string (connect ''s1'' None ''10.0.0.1'' init)
     [SensorData ''s1'' (Some payload_A) env0, SensorData ''s1'' (Some no_fields) env1])) (JStr ''A'')) =
     Some (JStr ''s1'') \<and>
   outbox (disconnect ''s1'' env1 (run no_numeric_string (connect ''s1'' None ''10.0.0.1'' init)
     [SensorData ''s1'' (Some payload_A) env0, SensorData ''s1'' (Some no_fields) env1])) =
   outbox (run no_numeric_string (connect ''s1'' None ''10.0.0.1'' init)
     [SensorData ''s1'' (Some payload_A) env0, SensorData ''s1'' (Some no_fields) env1])"
proof -
  let ?evs = "[SensorData ''s1'' (Some payload_A) env0, SensorData ''s1'' (Some no_fields) env1]"
  have h: "\<forall>ev \<in> set ?evs. \<not> registers_on ''s1'' ev" by simp
  have d: "devices (run no_numeric_string (connect ''s1'' None ''10.0.0.1'' init) ?evs) =
     [(JStr ''A'', 0), (JStr ''dev_9f8e7d6c'', 1)]"
    by (simp add: ev_defs)
  have l: "map_option socketId (lookup (run no_numeric_string (connect ''s1'' None ''10.0.0.1'' init) ?evs) (JStr ''A'')) = Some (JStr ''s1'')"
    by (simp add: ev_defs)
  note t = unregistered_disconnect_noop [OF h, where N = no_numeric_string and e = env1 and q = None
     and addr = "''10.0.0.1''" and ?s0.0 = init]
  from t d l show ?thesis by simp
qed

section \<open>The effect of a sample\<close>

lemma sensor_data_emits:
  assumes "conns s sid = Some c"
  shows "persisted (sensor_data N sid (Some p) e s) = persisted s @ [(sample_id c p e, make_row N c p e)]"
    and "outbox (sensor_data N sid (Some p) e s) =
           outbox s @ [(ToAll, SensorDataMsg (sample_id c p e) (make_row N c p e))]"
  using assms by (simp_all add: sensor_data_def Let_def)

lemma sensor_data_known:
  assumes "conns s sid = Some c" "map_of (devices s) (sample_id c p e) = Some r"
  shows "heap (sensor_data N sid (Some p) e s) =
           (heap s)[r := (heap s ! r)\<lparr>lastSeen := JStr (clock2 e), lat := row_lat (make_row N c p e),
                       lon := row_lon (make_row N c p e), socketId := JStr sid\<rparr>]"
    and "devices (sensor_data N sid (Some p) e s) = devices s"
  using assms by (simp_all add: sensor_data_def get_or_new_def Let_def update_triv)

lemma sensor_data_unknown:
  assumes "conns s sid = Some c" "map_of (devices s) (sample_id c p e) = None"
  shows "heap (sensor_data N sid (Some p) e s) =
           heap s @ [\<lparr>deviceId = sample_id c p e, ip = JStr (c_ip c), socketId = JStr sid,
                      lastSeen = JStr (clock2 e), lat = row_lat (make_row N c p e),
                      lon = row_lon (make_row N c p e)\<rparr>]"
    and "devices (sensor_data N sid (Some p) e s) =
           AList.update (sample_id c p e) (length (heap s)) (devices s)"
  using assms by (simp_all add: sensor_data_def get_or_new_def Let_def)

lemma lookup_eq:
  "heap s' = heap t \<Longrightarrow> devices s' = devices t \<Longrightarrow> lookup s' k = lookup t k"
  by (simp add: lookup_def)

lemma lookup_sensor_data_same:
  assumes ok: "store_ok s" and c: "conns s sid = Some c"
  shows "\<exists>rec. lookup (sensor_data N sid (Some p) e s) (sample_id c p e) = Some rec \<and>
           lat rec = row_lat (make_row N c p e) \<and> lon rec = row_lon (make_row N c p e) \<and>
           socketId rec = JStr sid \<and> lastSeen rec = JStr (clock2 e) \<and>
           (lookup s (sample_id c p e) = None \<longrightarrow>
              deviceId rec = sample_id c p e \<and> ip rec = JStr (c_ip c))"
proof (cases "map_of (devices s) (sample_id c p e)")
  case None
  let ?x = "\<lparr>deviceId = sample_id c p e, ip = JStr (c_ip c), socketId = JStr sid,
                      lastSeen = JStr (clock2 e), lat = row_lat (make_row N c p e),
                      lon = row_lon (make_row N c p e)\<rparr>"
  have "lookup (sensor_data N sid (Some p) e s) (sample_id c p e) =
        lookup (s\<lparr>heap := heap s @ [?x], devices := AList.update (sample_id c p e) (length (heap s)) (devices s)\<rparr>) (sample_id c p e)"
    by (rule lookup_eq) (simp_all add: sensor_data_unknown [OF c None])
  then show ?thesis by (simp add: lookup_alloc_same)
next
  case (Some r)
  let ?x = "(heap s ! r)\<lparr>lastSeen := JStr (clock2 e), lat := row_lat (make_row N c p e),
                       lon := row_lon (make_row N c p e), socketId := JStr sid\<rparr>"
  have "lookup (sensor_data N sid (Some p) e s) (sample_id c p e) =
        lookup (s\<lparr>heap := (heap s)[r := ?x], devices := AList.update (sample_id c p e) r (devices s)\<rparr>) (sample_id c p e)"
    by (rule lookup_eq) (simp_all add: sensor_data_known [OF c Some] update_triv [OF Some])
  then have "lookup (sensor_data N sid (Some p) e s) (sample_id c p e) = Some ?x"
    by (simp only: lookup_write_same [OF ok Some])
  moreover have "lookup s (sample_id c p e) \<noteq> None"
    using Some by (simp add: lookup_def)
  ultimately show ?thesis by auto
qed

lemma lookup_sensor_data_other:
  assumes ok: "store_ok s" and c: "conns s sid = Some c" and k: "k \<noteq> sample_id c p e"
  shows "lookup (sensor_data N sid (Some p) e s) k = lookup s k"
proof (cases "map_of (devices s) (sample_id c p e)")
  case None
  let ?x = "\<lparr>deviceId = sample_id c p e, ip = JStr (c_ip c), socketId = JStr sid,
                      lastSeen = JStr (clock2 e), lat = row_lat (make_row N c p e),
                      lon = row_lon (make_row N c p e)\<rparr>"
  have "lookup (sensor_data N sid (Some p) e s) k =
        lookup (s\<lparr>heap := heap s @ [?x], devices := AList.update (sample_id c p e) (length (heap s)) (devices s)\<rparr>) k"
    by (rule lookup_eq) (simp_all add: sensor_data_unknown [OF c None])
  then show ?thesis by (simp add: lookup_alloc_other [OF ok k])
next
  case (Some r)
  let ?x = "(heap s ! r)\<lparr>lastSeen := JStr (clock2 e), lat := row_lat (make_row N c p e),
                       lon := row_lon (make_row N c p e), socketId := JStr sid\<rparr>"
  have "lookup (sensor_data N sid (Some p) e s) k =
        lookup (s\<lparr>heap := (heap s)[r := ?x], devices := AList.update (sample_id c p e) r (devices s)\<rparr>) k"
    by (rule lookup_eq) (simp_all add: sensor_data_known [OF c Some] update_triv [OF Some])
  then show ?thesis by (simp add: lookup_write_other [OF ok Some k])
qed

lemma row_position:
  "row_lat (make_row N c p e) = js_or (p_lat p) (JStr '''')"
  "row_lon (make_row N c p e) = js_or (p_lon p) (JStr '''')"
  by (simp_all add: make_row_def)

lemma js_or_absent: "absent v \<Longrightarrow> js_or v w = w"
  by (auto simp: absent_def js_or_def)

section \<open>The stored position\<close>

lemma lookup_in_list_devices:
  assumes "lookup s k = Some rec"
  shows "rec \<in> set (list_devices s)"
proof -
  from assms obtain r where r: "map_of (devices s) k = Some r" and rec: "rec = heap s ! r"
    by (auto simp: lookup_def)
  from r have "r \<in> set (map snd (devices s))"
    by (force dest: map_of_SomeD)
  then show ?thesis
    unfolding list_devices_def serialize_def snapshot_def rec by auto
qed

text \<open>
  C3, as stated, fails. The record \<open>A\<close> holds the position \<open>(10.5, 20.5)\<close> of a first
  sample; a second sample for \<open>A\<close> with no \<open>lat\<close> and no \<open>lon\<close> is processed, and the
  listing of the registry then reports the empty string for both.
\<close>

theorem stored_position_kept_counterexample:
  "map_option lat (lookup (run no_numeric_string init
      [Connect ''s1'' None ''10.0.0.1'',
       SensorData ''s1'' (Some (payload_A\<lparr>p_lat := JNum (Num 10.5), p_lon := JNum (Num 20.5)\<rparr>)) env0])
      (JStr ''A'')) = Some (JNum (Num 10.5)) \<and>
   absent (p_lat payload_A) \<and> absent (p_lon payload_A) \<and>
   list_devices (run no_numeric_string init
      [Connect ''s1'' None ''10.0.0.1'',
       SensorData ''s1'' (Some (payload_A\<lparr>p_lat := JNum (Num 10.5), p_lon := JNum (Num 20.5)\<rparr>)) env0,
       SensorData ''s1'' (Some payload_A) env1]) =
     [\<lparr>deviceId = JStr ''A'', ip = JStr ''10.0.0.1'', socketId = JStr ''s1'',
       lastSeen = JStr ''2024-01-01T00:00:05.001Z'', lat = JStr '''', lon = JStr ''''\<rparr>]"
  by (simp add: ev_defs absent_def)

text \<open>
  C3, amended. The \<open>lat\<close> and \<open>lon\<close> of a record are those of the sample ingested last
  for its device id, whether or not that sample carried a position: after a
  \<^verbatim>\<open>sensor-data\<close> event the record of the resolved id, as listed, holds
  \<^verbatim>\<open>payload.lat || ''\<close> and \<^verbatim>\<open>payload.lon || ''\<close>, so an absent
  coordinate overwrites the stored one with the empty string.
\<close>

theorem sample_overwrites_position:
  assumes "store_ok s" and "conns s sid = Some c"
  shows "\<exists>rec. lookup (sensor_data N sid (Some p) e s) (sample_id c p e) = Some rec \<and>
           rec \<in> set (list_devices (sensor_data N sid (Some p) e s)) \<and>
           lat rec = js_or (p_lat p) (JStr '''') \<and> lon rec = js_or (p_lon p) (JStr '''') \<and>
           (absent (p_lat p) \<longrightarrow> lat rec = JStr '''') \<and>
           (absent (p_lon p) \<longrightarrow> lon rec = JStr '''')"
proof -
  from lookup_sensor_data_same [OF assms, of N p e]
  obtain rec where rec: "lookup (sensor_data N sid (Some p) e s) (sample_id c p e) = Some rec"
    and "lat rec = row_lat (make_row N c p e)" and "lon rec = row_lon (make_row N c p e)"
    by blast
  then have "lat rec = js_or (p_lat p) (JStr '''')" "lon rec = js_or (p_lon p) (JStr '''')"
    by (simp_all add: row_position)
  then have "(absent (p_lat p) \<longrightarrow> lat rec = JStr '''') \<and> (absent (p_lon p) \<longrightarrow> lon rec = JStr '''')"
    by (simp add: js_or_absent)
  with rec lookup_in_list_devices [OF rec] \<open>lat rec = js_or (p_lat p) (JStr '''')\<close>
    \<open>lon rec = js_or (p_lon p) (JStr '''')\<close>
  show ?thesis by blast
qed

text \<open>The second sample of the example above, on the state the first one left.\<close>

theorem sample_overwrites_position_witness:
  "store_ok (run no_numeric_string init
      [Connect ''s1'' None ''10.0.0.1'',
       SensorData ''s1'' (Some (payload_A\<lparr>p_lat := JNum (Num 10.5), p_lon := JNum (Num 20.5)\<rparr>)) env0]) \<and>
   conns (run no_numeric_string init
      [Connect ''s1'' None ''10.0.0.1'',
       SensorData ''s1'' (Some (payload_A\<lparr>p_lat := JNum (Num 10.5), p_lon := JNum (Num 20.5)\<rparr>)) env0]) ''s1''
     = Some \<lparr>c_ip = ''10.0.0.1'', c_deviceId = JUndefined\<rparr> \<and>
   absent (p_lat payload_A) \<and> absent (p_lon payload_A) \<and>
   (\<exists>rec. lookup (sensor_data no_numeric_string ''s1'' (Some payload_A) env1
       (run no_numeric_string init
         [Connect ''s1'' None ''10.0.0.1'',
          SensorData ''s1'' (Some (payload_A\<lparr>p_lat := JNum (Num 10.5), p_lon := JNum (Num 20.5)\<rparr>)) env0]))
       (JStr ''A'') = Some rec \<and> lat rec = JStr '''' \<and> lon rec = JStr '''')"
proof -
  let ?s = "run no_numeric_string init
      [Connect ''s1'' None ''10.0.0.1'',
       SensorData ''s1'' (Some (payload_A\<lparr>p_lat := JNum (Num 10.5), p_lon := JNum (Num 20.5)\<rparr>)) env0]"
  have 1: "store_ok ?s"
    by (rule store_ok_run) (rule store_ok_init)
  have 2: "conns ?s ''s1'' = Some \<lparr>c_ip = ''10.0.0.1'', c_deviceId = JUndefined\<rparr>"
    by (simp add: ev_defs)
  have 3: "absent (p_lat payload_A)" "absent (p_lon payload_A)"
    by (simp_all add: absent_def payload_A_def)
  have 4: "sample_id \<lparr>c_ip = ''10.0.0.1'', c_deviceId = JUndefined\<rparr> payload_A env1 = JStr ''A''"
    by (simp add: sample_id_def js_or_def payload_A_def)
  from sample_overwrites_position [OF 1 2, where N = no_numeric_string and p = payload_A and e = env1]
  obtain rec where "lookup (sensor_data no_numeric_string ''s1'' (Some payload_A) env1 ?s) (JStr ''A'') = Some rec"
    "lat rec = JStr ''''" "lon rec = JStr ''''"
    unfolding 4 using 3 by blast
  with 1 2 3 show ?thesis by blast
qed

section \<open>The row of a sample\<close>








lemma js_or_not_absent: "\<not> absent w \<Longrightarrow> \<not> absent (js_or v w)"
  by (cases v) (auto simp: absent_def js_or_def)

text \<open>
  C6, as stated, fails. A sample with no \<open>lat\<close> and no \<open>lon\<close>: the row handed to
  \<^verbatim>\<open>appendCsv\<close> and the broadcast message both carry the empty string in
  \<open>lat\<close> and \<open>lon\<close>, a value put there by \<^verbatim>\<open>payload.lat || ''\<close>, and not an absent
  field.
\<close>

theorem missing_position_absent_counterexample:
  "absent (p_lat payload_A) \<and> absent (p_lon payload_A) \<and>
   persisted (run no_numeric_string init
      [Connect ''s1'' None ''10.0.0.1'', SensorData ''s1'' (Some payload_A) env0]) =
     [(JStr ''A'', \<lparr>row_time = JStr ''2024-01-01T00:00:00.000Z'', row_x = Num 0, row_y = Num 0,
        row_z = Num 0, row_lat = JStr '''', row_lon = JStr '''', row_ip = JStr ''10.0.0.1''\<rparr>)] \<and>
   outbox (run no_numeric_string init
      [Connect ''s1'' None ''10.0.0.1'', SensorData ''s1'' (Some payload_A) env0]) =
     [(ToAll, SensorDataMsg (JStr ''A'') \<lparr>row_time = JStr ''2024-01-01T00:00:00.000Z'', row_x = Num 0,
        row_y = Num 0, row_z = Num 0, row_lat = JStr '''', row_lon = JStr '''',
        row_ip = JStr ''10.0.0.1''\<rparr>)] \<and>
   \<not> absent (JStr '''')"
  by (simp add: ev_defs absent_def)

text \<open>
  C6, amended. For every \<^verbatim>\<open>sensor-data\<close> event, one and the same row is handed to
  persistence and broadcast; a \<open>lat\<close> (a \<open>lon\<close>) missing from the payload is the empty
  string in that row, and the \<open>lat\<close> and \<open>lon\<close> of the row are never absent.
\<close>

theorem missing_position_empty_string:
  assumes "conns s sid = Some c"
  shows "\<exists>rw. persisted (sensor_data N sid (Some p) e s) = persisted s @ [(sample_id c p e, rw)] \<and>
           outbox (sensor_data N sid (Some p) e s) =
             outbox s @ [(ToAll, SensorDataMsg (sample_id c p e) rw)] \<and>
           (absent (p_lat p) \<longrightarrow> row_lat rw = JStr '''') \<and>
           (absent (p_lon p) \<longrightarrow> row_lon rw = JStr '''') \<and>
           \<not> absent (row_lat rw) \<and> \<not> absent (row_lon rw)"
proof -
  have "\<not> absent (JStr '''')" by (simp add: absent_def)
  then have "\<not> absent (row_lat (make_row N c p e))" "\<not> absent (row_lon (make_row N c p e))"
    by (simp_all add: row_position js_or_not_absent)
  moreover have "absent (p_lat p) \<longrightarrow> row_lat (make_row N c p e) = JStr ''''"
    "absent (p_lon p) \<longrightarrow> row_lon (make_row N c p e) = JStr ''''"
    by (simp_all add: row_position js_or_absent)
  ultimately show ?thesis
    using sensor_data_emits [OF assms, of N p e] by blast
qed

text \<open>The payload \<^verbatim>\<open>{deviceId: "A"}\<close> on a fresh connection.\<close>

theorem missing_position_empty_string_witness:
  "conns (connect ''s1'' None ''10.0.0.1'' init) ''s1'' = Some \<lparr>c_ip = ''10.0.0.1'', c_deviceId = JUndefined\<rparr> \<and>
   absent (p_lat payload_A) \<and> absent (p_lon payload_A) \<and>
   (\<exists>rw. persisted (sensor_data no_numeric_string ''s1'' (Some payload_A) env0
            (connect ''s1'' None ''10.0.0.1'' init)) = [(JStr ''A'', rw)] \<and>
         outbox (sensor_data no_numeric_string ''s1'' (Some payload_A) env0
            (connect ''s1'' None ''10.0.0.1'' init)) = [(ToAll, SensorDataMsg (JStr ''A'') rw)] \<and>
         row_lat rw = JStr '''' \<and> row_lon rw = JStr '''')"
proof -
  let ?s = "connect ''s1'' None ''10.0.0.1'' init"
  let ?c = "\<lparr>c_ip = ''10.0.0.1'', c_deviceId = JUndefined\<rparr>"
  have 1: "conns ?s ''s1'' = Some ?c"
    by (simp add: connect_def role_of_def init_def)
  have 2: "absent (p_lat payload_A)" "absent (p_lon payload_A)"
    by (simp_all add: absent_def payload_A_def)
  have 3: "sample_id ?c payload_A env0 = JStr ''A''"
    by (simp add: sample_id_def js_or_def payload_A_def)
  have 4: "persisted ?s = []" "outbox ?s = []"
    by (simp_all add: connect_def role_of_def init_def)
  from missing_position_empty_string [OF 1, where N = no_numeric_string and p = payload_A and e = env0]
  obtain rw where "persisted (sensor_data no_numeric_string ''s1'' (Some payload_A) env0 ?s) = [(JStr ''A'', rw)]"
    "outbox (sensor_data no_numeric_string ''s1'' (Some payload_A) env0 ?s) = [(ToAll, SensorDataMsg (JStr ''A'') rw)]"
    "row_lat rw = JStr ''''" "row_lon rw = JStr ''''"
    unfolding 3 4 using 2 by auto
  with 1 2 show ?thesis by blast
qed

section \<open>The device id bound to a connection\<close>

text \<open>
  C4, as stated, fails. A connection that never registered sends a sample claiming the
  id \<open>A\<close> and then one claiming \<open>B\<close>: the second is attributed to \<open>B\<close>, and nothing is
  bound to the connection. A connection that registers \<open>A\<close> and then \<open>B\<close> has its next
  sample attributed to \<open>B\<close>, the id of the later \<^verbatim>\<open>register\<close>, though the payload
  claims \<open>A\<close>.
\<close>

theorem first_resolution_binds_counterexample:
  "map fst (persisted (run no_numeric_string init
      [Connect ''s1'' None ''10.0.0.1'', SensorData ''s1'' (Some payload_A) env0,
       SensorData ''s1'' (Some payload_B) env1])) = [JStr ''A'', JStr ''B''] \<and>
   conns (run no_numeric_string init
      [Connect ''s1'' None ''10.0.0.1'', SensorData ''s1'' (Some payload_A) env0]) ''s1'' =
     Some \<lparr>c_ip = ''10.0.0.1'', c_deviceId = JUndefined\<rparr> \<and>
   map fst (persisted (run no_numeric_string init
      [Connect ''s1'' None ''10.0.0.1'', Register ''s1'' (Some payload_A) env0,
       Register ''s1'' (Some payload_B) env1, SensorData ''s1'' (Some payload_A) env1])) = [JStr ''B'']"
  by (simp add: ev_defs)

lemma synth_id_truthy: "truthy (synth_id u)"
  by (simp add: synth_id_def)

lemma register_id_always_truthy: "truthy (register_id pl e)"
  by (simp add: register_id_def js_or_def synth_id_truthy)

lemma sample_id_bound: "truthy (c_deviceId c) \<Longrightarrow> sample_id c p e = c_deviceId c"
  by (simp add: sample_id_def js_or_def)

lemma sample_id_unbound:
  "\<not> truthy (c_deviceId c) \<Longrightarrow> sample_id c p e = js_or (p_deviceId p) (synth_id (uuid e))"
  by (simp add: sample_id_def js_or_def)

lemma conns_register_same:
  "conns s sid = Some c \<Longrightarrow>
   conns (register sid pl e s) sid = Some (c\<lparr>c_deviceId := register_id pl e\<rparr>)"
  by (simp add: register_def Let_def)

text \<open>
  C4, amended. Only \<^verbatim>\<open>register\<close> binds a device id to the connection, and every
  \<^verbatim>\<open>register\<close> binds anew, to the id it resolved (always truthy); a sample sent
  with that binding is attributed to the bound id whatever its payload claims.
  \<^verbatim>\<open>sensor-data\<close> binds nothing: while a truthy id is bound, a sample is attributed
  to it; otherwise to the id of its own payload, or to a newly synthesised one. The
  attribution is the id under which the row is persisted and broadcast.
\<close>

theorem register_binds_sample_does_not:
  assumes "conns s sid = Some c"
  shows "conns (register sid pl e s) sid = Some (c\<lparr>c_deviceId := register_id pl e\<rparr>) \<and>
         sample_id (c\<lparr>c_deviceId := register_id pl e\<rparr>) p e' = register_id pl e \<and>
         conns (sensor_data N sid pl' e' s) = conns s \<and>
         (truthy (c_deviceId c) \<longrightarrow> sample_id c p e' = c_deviceId c) \<and>
         (\<not> truthy (c_deviceId c) \<longrightarrow>
            sample_id c p e' = js_or (p_deviceId p) (synth_id (uuid e'))) \<and>
         persisted (sensor_data N sid (Some p) e' s) =
           persisted s @ [(sample_id c p e', make_row N c p e')] \<and>
         outbox (sensor_data N sid (Some p) e' s) =
           outbox s @ [(ToAll, SensorDataMsg (sample_id c p e') (make_row N c p e'))]"
  using assms
  by (simp add: conns_register_same conns_sensor_data sample_id_bound sample_id_unbound
      register_id_always_truthy sensor_data_emits)

text \<open>A fresh connection: registering \<open>A\<close>, and a sample that claims \<open>B\<close>.\<close>

theorem register_binds_sample_does_not_witness:
  "conns (connect ''s1'' None ''10.0.0.1'' init) ''s1'' = Some \<lparr>c_ip = ''10.0.0.1'', c_deviceId = JUndefined\<rparr> \<and>
   \<not> truthy (c_deviceId \<lparr>c_ip = ''10.0.0.1'', c_deviceId = JUndefined\<rparr>) \<and>
   conns (register ''s1'' (Some payload_A) env0 (connect ''s1'' None ''10.0.0.1'' init)) ''s1'' =
     Some \<lparr>c_ip = ''10.0.0.1'', c_deviceId = JStr ''A''\<rparr> \<and>
   sample_id \<lparr>c_ip = ''10.0.0.1'', c_deviceId = JStr ''A''\<rparr> payload_B env1 = JStr ''A'' \<and>
   sample_id \<lparr>c_ip = ''10.0.0.1'', c_deviceId = JUndefined\<rparr> payload_B env1 = JStr ''B'' \<and>
   conns (sensor_data no_numeric_string ''s1'' (Some payload_B) env1 (connect ''s1'' None ''10.0.0.1'' init)) =
     conns (connect ''s1'' None ''10.0.0.1'' init)"
proof -
  let ?s = "connect ''s1'' None ''10.0.0.1'' init"
  let ?c = "\<lparr>c_ip = ''10.0.0.1'', c_deviceId = JUndefined\<rparr>"
  have 1: "conns ?s ''s1'' = Some ?c"
    by (simp add: connect_def role_of_def init_def)
  have 2: "\<not> truthy (c_deviceId ?c)" by simp
  have 3: "register_id (Some payload_A) env0 = JStr ''A''"
    by (simp add: register_id_def js_or_def payload_A_def)
  have 4: "js_or (p_deviceId payload_B) (synth_id (uuid env1)) = JStr ''B''"
    by (simp add: js_or_def payload_B_def)
  note t = register_binds_sample_does_not [OF 1, where N = no_numeric_string and pl = "Some payload_A"
      and e = env0 and p = payload_B and e' = env1 and pl' = "Some payload_B"]
  from t 2 3 4 1 show ?thesis by simp
qed

section \<open>Disconnect of a registered connection\<close>

lemma disconnect_known:
  assumes "conns s sid = Some c" "truthy (c_deviceId c)" "map_of (devices s) (c_deviceId c) = Some r"
  shows "heap (disconnect sid e s) =
           (heap s)[r := (heap s ! r)\<lparr>socketId := JNull, lastSeen := JStr (clock e)\<rparr>]"
    and "devices (disconnect sid e s) = devices s"
    and "outbox (disconnect sid e s) =
           outbox s @ [(ToAll, Devices (list_devices (disconnect sid e s)))]"
  using assms
  by (simp_all add: disconnect_def Let_def update_triv devices_msg_def list_devices_def snapshot_def)

lemma disconnect_unknown:
  assumes "conns s sid = Some c" "\<not> truthy (c_deviceId c) \<or> map_of (devices s) (c_deviceId c) = None"
  shows "disconnect sid e s = s\<lparr>conns := (conns s)(sid := None)\<rparr>"
  using assms by (auto simp: disconnect_def Let_def)

text \<open>
  C2, as stated, fails. Two connections register the id \<open>A\<close>, so the record holds the
  handle of the second; the first then disconnects, and the record's \<open>socketId\<close> is
  cleared and its \<open>lastSeen\<close> updated.
\<close>

theorem stale_disconnect_noop_counterexample:
  "map_option socketId (lookup (run no_numeric_string init
      [Connect ''s1'' None ''10.0.0.1'', Connect ''s2'' None ''10.0.0.2'',
       Register ''s1'' (Some payload_A) env0, Register ''s2'' (Some payload_A) env1])
      (JStr ''A'')) = Some (JStr ''s2'') \<and>
   lookup (run no_numeric_string init
      [Connect ''s1'' None ''10.0.0.1'', Connect ''s2'' None ''10.0.0.2'',
       Register ''s1'' (Some payload_A) env0, Register ''s2'' (Some payload_A) env1,
       Disconnect ''s1'' env2])
      (JStr ''A'') =
     Some \<lparr>deviceId = JStr ''A'', ip = JStr ''10.0.0.2'', socketId = JNull,
       lastSeen = JStr ''2024-01-01T00:00:09.000Z'', lat = JNull, lon = JNull\<rparr>"
  by (simp add: ev_defs)

text \<open>
  C2, amended. The disconnect of a connection changes at most one record, the one keyed
  by the device id its \<^verbatim>\<open>register\<close> bound to it: that record's \<open>socketId\<close> becomes
  \<^verbatim>\<open>null\<close> and its \<open>lastSeen\<close> the time of the disconnect, whatever handle the
  record holds (no comparison with the handle of the connection is made), every other
  record reads as before, and the registry is broadcast. With no id bound, or none with
  a record, the registry reads as before and nothing is emitted.
\<close>

theorem disconnect_clears_bound_record:
  assumes ok: "store_ok s" and c: "conns s sid = Some c"
  shows "(truthy (c_deviceId c) \<and> lookup s (c_deviceId c) = Some old \<longrightarrow>
            lookup (disconnect sid e s) (c_deviceId c) =
              Some (old\<lparr>socketId := JNull, lastSeen := JStr (clock e)\<rparr>) \<and>
            (\<forall>k. k \<noteq> c_deviceId c \<longrightarrow> lookup (disconnect sid e s) k = lookup s k) \<and>
            outbox (disconnect sid e s) =
              outbox s @ [(ToAll, Devices (list_devices (disconnect sid e s)))]) \<and>
         (\<not> truthy (c_deviceId c) \<or> lookup s (c_deviceId c) = None \<longrightarrow>
            lookup (disconnect sid e s) = lookup s \<and> outbox (disconnect sid e s) = outbox s)"
proof (intro conjI impI)
  assume "\<not> truthy (c_deviceId c) \<or> lookup s (c_deviceId c) = None"
  then have "\<not> truthy (c_deviceId c) \<or> map_of (devices s) (c_deviceId c) = None"
    by (simp add: lookup_def)
  then have eq: "disconnect sid e s = s\<lparr>conns := (conns s)(sid := None)\<rparr>"
    by (rule disconnect_unknown [OF c])
  show "lookup (disconnect sid e s) = lookup s"
    unfolding eq by (simp add: fun_eq_iff lookup_def)
  show "outbox (disconnect sid e s) = outbox s"
    unfolding eq by simp
next
  assume a: "truthy (c_deviceId c) \<and> lookup s (c_deviceId c) = Some old"
  then obtain r where r: "map_of (devices s) (c_deviceId c) = Some r" and old: "old = heap s ! r"
    by (auto simp: lookup_def)
  from a have t: "truthy (c_deviceId c)" by simp
  note dk = disconnect_known [OF c t r, of e]
  let ?x = "(heap s ! r)\<lparr>socketId := JNull, lastSeen := JStr (clock e)\<rparr>"
  have ev: "\<And>k. lookup (disconnect sid e s) k =
      lookup (s\<lparr>heap := (heap s)[r := ?x], devices := AList.update (c_deviceId c) r (devices s)\<rparr>) k"
    by (rule lookup_eq) (simp_all add: dk update_triv [OF r])
  show "lookup (disconnect sid e s) (c_deviceId c) = Some (old\<lparr>socketId := JNull, lastSeen := JStr (clock e)\<rparr>)"
    unfolding ev old by (rule lookup_write_same [OF ok r])
  show "\<forall>k. k \<noteq> c_deviceId c \<longrightarrow> lookup (disconnect sid e s) k = lookup s k"
    unfolding ev by (simp add: lookup_write_other [OF ok r])
  show "outbox (disconnect sid e s) = outbox s @ [(ToAll, Devices (list_devices (disconnect sid e s)))]"
    by (rule dk(3))
qed

text \<open>The disconnect of the example above.\<close>

theorem disconnect_clears_bound_record_witness:
  "store_ok (run no_numeric_string init
      [Connect ''s1'' None ''10.0.0.1'', Connect ''s2'' None ''10.0.0.2'',
       Register ''s1'' (Some payload_A) env0, Register ''s2'' (Some payload_A) env1]) \<and>
   conns (run no_numeric_string init
      [Connect ''s1'' None ''10.0.0.1'', Connect ''s2'' None ''10.0.0.2'',
       Register ''s1'' (Some payload_A) env0, Register ''s2'' (Some payload_A) env1]) ''s1'' =
     Some \<lparr>c_ip = ''10.0.0.1'', c_deviceId = JStr ''A''\<rparr> \<and>
   truthy (JStr ''A'') \<and>
   lookup (run no_numeric_string init
      [Connect ''s1'' None ''10.0.0.1'', Connect ''s2'' None ''10.0.0.2'',
       Register ''s1'' (Some payload_A) env0, Register ''s2'' (Some payload_A) env1]) (JStr ''A'') =
     Some \<lparr>deviceId = JStr ''A'', ip = JStr ''10.0.0.2'', socketId = JStr ''s2'',
       lastSeen = JStr ''2024-01-01T00:00:05.000Z'', lat = JNull, lon = JNull\<rparr> \<and>
   lookup (disconnect ''s1'' env2 (run no_numeric_string init
      [Connect ''s1'' None ''10.0.0.1'', Connect ''s2'' None ''10.0.0.2'',
       Register ''s1'' (Some payload_A) env0, Register ''s2'' (Some payload_A) env1])) (JStr ''A'') =
     Some \<lparr>deviceId = JStr ''A'', ip = JStr ''10.0.0.2'', socketId = JNull,
       lastSeen = JStr ''2024-01-01T00:00:09.000Z'', lat = JNull, lon = JNull\<rparr>"
proof -
  let ?s = "run no_numeric_string init
      [Connect ''s1'' None ''10.0.0.1'', Connect ''s2'' None ''10.0.0.2'',
       Register ''s1'' (Some payload_A) env0, Register ''s2'' (Some payload_A) env1]"
  let ?c = "\<lparr>c_ip = ''10.0.0.1'', c_deviceId = JStr ''A''\<rparr>"
  let ?old = "\<lparr>deviceId = JStr ''A'', ip = JStr ''10.0.0.2'', socketId = JStr ''s2'',
       lastSeen = JStr ''2024-01-01T00:00:05.000Z'', lat = JNull, lon = JNull\<rparr>"
  have 1: "store_ok ?s"
    by (rule store_ok_run) (rule store_ok_init)
  have 2: "conns ?s ''s1'' = Some ?c"
    by (simp add: ev_defs)
  have 3: "lookup ?s (JStr ''A'') = Some ?old"
    by (simp add: ev_defs)
  note t = disconnect_clears_bound_record [OF 1 2, where old = ?old and e = env2]
  from t 3 have "lookup (disconnect ''s1'' env2 ?s) (JStr ''A'') =
      Some (?old\<lparr>socketId := JNull, lastSeen := JStr (clock env2)\<rparr>)"
    by simp
  then have "lookup (disconnect ''s1'' env2 ?s) (JStr ''A'') =
     Some \<lparr>deviceId = JStr ''A'', ip = JStr ''10.0.0.2'', socketId = JNull,
       lastSeen = JStr ''2024-01-01T00:00:09.000Z'', lat = JNull, lon = JNull\<rparr>"
    by (simp add: env2_def)
  with 1 2 3 show ?thesis by simp
qed

section \<open>Opening a connection\<close>

lemma outbox_step: "\<exists>ms. outbox (step N s ev) = outbox s @ ms"
proof (cases ev)
  case (Connect sid q addr)
  then show ?thesis by (simp add: connect_def Let_def)
next
  case (Register sid pl e)
  then show ?thesis by (cases "conns s sid") (simp_all add: register_def Let_def)
next
  case (SensorData sid pl e)
  then show ?thesis
    by (cases pl; cases "conns s sid") (simp_all add: sensor_data_def Let_def)
next
  case (Disconnect sid e)
  then show ?thesis
    by (cases "conns s sid") (auto simp: disconnect_def Let_def split: option.splits)
qed

lemma outbox_run: "\<exists>ms. outbox (run N s evs) = outbox s @ ms"
proof (induction evs rule: rev_induct)
  case Nil
  show ?case by (simp add: run_Nil)
next
  case (snoc ev evs)
  then obtain ms where ms: "outbox (run N s evs) = outbox s @ ms" by blast
  obtain ms' where "outbox (step N (run N s evs) ev) = outbox (run N s evs) @ ms'"
    using outbox_step by blast
  with ms show ?case by (simp add: run_snoc)
qed

lemma connect_admin:
  "role_of q = ''admin'' \<Longrightarrow>
   outbox (connect sid q addr s) = outbox s @ [(ToSocket sid, Devices (list_devices s))]"
  by (simp add: connect_def Let_def devices_msg_def list_devices_def snapshot_def)

lemma connect_other:
  "role_of q \<noteq> ''admin'' \<Longrightarrow> outbox (connect sid q addr s) = outbox s"
  by (simp add: connect_def Let_def)

text \<open>
  C7, as stated, fails. One device is registered; a connection then opens with the role
  \<open>observer\<close> in its handshake query. The role is not \<open>admin\<close>, the only one the connection
  callback tests for, and nothing is emitted: the messages are those emitted before.
\<close>

theorem observer_role_snapshot_counterexample:
  "role_of (Some ''observer'') = ''observer'' \<and>
   outbox (run no_numeric_string init
      [Connect ''s1'' None ''10.0.0.1'', Register ''s1'' (Some payload_A) env0]) =
     [(ToSocket ''s1'', Registered (JStr ''A'')),
      (ToAll, Devices [\<lparr>deviceId = JStr ''A'', ip = JStr ''10.0.0.1'', socketId = JStr ''s1'',
          lastSeen = JStr ''2024-01-01T00:00:00.000Z'', lat = JNull, lon = JNull\<rparr>])] \<and>
   outbox (run no_numeric_string init
      [Connect ''s1'' None ''10.0.0.1'', Register ''s1'' (Some payload_A) env0,
       Connect ''o1'' (Some ''observer'') ''10.0.0.9'']) =
     [(ToSocket ''s1'', Registered (JStr ''A'')),
      (ToAll, Devices [\<lparr>deviceId = JStr ''A'', ip = JStr ''10.0.0.1'', socketId = JStr ''s1'',
          lastSeen = JStr ''2024-01-01T00:00:00.000Z'', lat = JNull, lon = JNull\<rparr>])]"
  by (simp add: ev_defs)

text \<open>
  C7, amended. A connection that opens with the role \<open>admin\<close> is sent the listing of the
  registry at once, addressed to it alone, and every message emitted by later events
  comes after it; a connection with any other role is sent nothing on opening. Opening a
  connection leaves the registry as it is.
\<close>

theorem admin_role_snapshot:
  "(role_of q = ''admin'' \<longrightarrow>
      outbox (connect sid q addr s) = outbox s @ [(ToSocket sid, Devices (list_devices s))] \<and>
      (\<exists>ms. outbox (run N (connect sid q addr s) evs) =
         outbox s @ (ToSocket sid, Devices (list_devices s)) # ms)) \<and>
   (role_of q \<noteq> ''admin'' \<longrightarrow> outbox (connect sid q addr s) = outbox s) \<and>
   heap (connect sid q addr s) = heap s \<and> devices (connect sid q addr s) = devices s"
proof -
  obtain ms where "outbox (run N (connect sid q addr s) evs) = outbox (connect sid q addr s) @ ms"
    using outbox_run by blast
  then show ?thesis
    by (simp add: connect_admin connect_other) (simp add: connect_def Let_def)
qed

text \<open>After one registration, a connection opens as \<open>admin\<close>, or as \<open>observer\<close>.\<close>

theorem admin_role_snapshot_witness:
  "role_of (Some ''admin'') = ''admin'' \<and> role_of (Some ''observer'') \<noteq> ''admin'' \<and>
   outbox (connect ''o1'' (Some ''admin'') ''10.0.0.9''
      (run no_numeric_string init
        [Connect ''s1'' None ''10.0.0.1'', Register ''s1'' (Some payload_A) env0])) =
     [(ToSocket ''s1'', Registered (JStr ''A'')),
      (ToAll, Devices [\<lparr>deviceId = JStr ''A'', ip = JStr ''10.0.0.1'', socketId = JStr ''s1'',
          lastSeen = JStr ''2024-01-01T00:00:00.000Z'', lat = JNull, lon = JNull\<rparr>]),
      (ToSocket ''o1'', Devices [\<lparr>deviceId = JStr ''A'', ip = JStr ''10.0.0.1'', socketId = JStr ''s1'',
          lastSeen = JStr ''2024-01-01T00:00:00.000Z'', lat = JNull, lon = JNull\<rparr>])] \<and>
   outbox (connect ''o1'' (Some ''observer'') ''10.0.0.9''
      (run no_numeric_string init
        [Connect ''s1'' None ''10.0.0.1'', Register ''s1'' (Some payload_A) env0])) =
   outbox (run no_numeric_string init
        [Connect ''s1'' None ''10.0.0.1'', Register ''s1'' (Some payload_A) env0])"
proof -
  let ?s = "run no_numeric_string init
        [Connect ''s1'' None ''10.0.0.1'', Register ''s1'' (Some payload_A) env0]"
  have 1: "role_of (Some ''admin'') = ''admin''" "role_of (Some ''observer'') \<noteq> ''admin''"
    by (simp_all add: role_of_def)
  have 2: "outbox ?s = [(ToSocket ''s1'', Registered (JStr ''A'')),
      (ToAll, Devices [\<lparr>deviceId = JStr ''A'', ip = JStr ''10.0.0.1'', socketId = JStr ''s1'',
          lastSeen = JStr ''2024-01-01T00:00:00.000Z'', lat = JNull, lon = JNull\<rparr>])]"
    by (simp add: ev_defs)
  have 3: "list_devices ?s = [\<lparr>deviceId = JStr ''A'', ip = JStr ''10.0.0.1'', socketId = JStr ''s1'',
          lastSeen = JStr ''2024-01-01T00:00:00.000Z'', lat = JNull, lon = JNull\<rparr>]"
    by (simp add: ev_defs)
  from admin_role_snapshot [where q = "Some ''admin''" and N = no_numeric_string and sid = "''o1''"
      and addr = "''10.0.0.9''" and s = ?s and evs = "[]"] 1
  have a: "outbox (connect ''o1'' (Some ''admin'') ''10.0.0.9'' ?s) =
      outbox ?s @ [(ToSocket ''o1'', Devices (list_devices ?s))]"
    by simp
  from admin_role_snapshot [where q = "Some ''observer''" and N = no_numeric_string and sid = "''o1''"
      and addr = "''10.0.0.9''" and s = ?s and evs = "[]"] 1
  have b: "outbox (connect ''o1'' (Some ''observer'') ''10.0.0.9'' ?s) = outbox ?s"
    by simp
  from a b 1 show ?thesis unfolding 2 3 by simp
qed

section \<open>Registration of a known device\<close>

lemma register_entry_position:
  "lookup s d = Some old \<Longrightarrow> lat (register_entry s c sid d e) = js_or (lat old) JNull"
  "lookup s d = Some old \<Longrightarrow> lon (register_entry s c sid d e) = js_or (lon old) JNull"
  by (simp_all add: register_entry_def Let_def)

text \<open>
  C8, as stated, fails. A sample with \<open>lat = 0\<close> and \<open>lon = 20.5\<close> leaves the empty string
  in the \<open>lat\<close> of the record; a \<^verbatim>\<open>register\<close> for the same id then stores
  \<^verbatim>\<open>null\<close> there (\<open>lon\<close> is kept). On a record that holds the number \<open>0\<close> in
  \<open>lat\<close> and \<open>lon\<close>, \<^verbatim>\<open>register\<close> stores \<^verbatim>\<open>null\<close> in both.
\<close>

theorem register_keeps_position_counterexample:
  "lookup (run no_numeric_string init
      [Connect ''s1'' None ''10.0.0.1'',
       SensorData ''s1'' (Some (payload_A\<lparr>p_lat := JNum (Num 0), p_lon := JNum (Num 20.5)\<rparr>)) env0])
      (JStr ''A'') =
     Some \<lparr>deviceId = JStr ''A'', ip = JStr ''10.0.0.1'', socketId = JStr ''s1'',
       lastSeen = JStr ''2024-01-01T00:00:00.001Z'', lat = JStr '''', lon = JNum (Num 20.5)\<rparr> \<and>
   lookup (run no_numeric_string init
      [Connect ''s1'' None ''10.0.0.1'',
       SensorData ''s1'' (Some (payload_A\<lparr>p_lat := JNum (Num 0), p_lon := JNum (Num 20.5)\<rparr>)) env0,
       Register ''s1'' (Some payload_A) env1])
      (JStr ''A'') =
     Some \<lparr>deviceId = JStr ''A'', ip = JStr ''10.0.0.1'', socketId = JStr ''s1'',
       lastSeen = JStr ''2024-01-01T00:00:05.000Z'', lat = JNull, lon = JNum (Num 20.5)\<rparr> \<and>
   map_option lat (lookup origin_state (JStr ''A'')) = Some (JNum (Num 0)) \<and>
   map_option lat (lookup (register ''s1'' (Some payload_A) env1 origin_state) (JStr ''A'')) = Some JNull \<and>
   map_option lon (lookup (register ''s1'' (Some payload_A) env1 origin_state) (JStr ''A'')) = Some JNull"
  by (simp add: ev_defs origin_state_def)

text \<open>
  C8, amended. A \<^verbatim>\<open>register\<close> for a known device id stores a record with that id,
  the address and handle of the registering connection and the time of the call; its
  \<open>lat\<close> (\<open>lon\<close>) is the one stored before when that is truthy, and
  \<^verbatim>\<open>null\<close> when the one stored before is \<^verbatim>\<open>null\<close> or the empty string.
\<close>

theorem register_keeps_truthy_position:
  assumes c: "conns s sid = Some c" and old: "lookup s (register_id pl e) = Some old"
  shows "\<exists>rec. lookup (register sid pl e s) (register_id pl e) = Some rec \<and>
           deviceId rec = register_id pl e \<and> ip rec = JStr (c_ip c) \<and>
           socketId rec = JStr sid \<and> lastSeen rec = JStr (clock e) \<and>
           (truthy (lat old) \<longrightarrow> lat rec = lat old) \<and>
           (truthy (lon old) \<longrightarrow> lon rec = lon old) \<and>
           (lat old = JNull \<or> lat old = JStr '''' \<longrightarrow> lat rec = JNull) \<and>
           (lon old = JNull \<or> lon old = JStr '''' \<longrightarrow> lon rec = JNull)"
proof -
  let ?rec = "register_entry s c sid (register_id pl e) e"
  have "lookup (register sid pl e s) (register_id pl e) = Some ?rec"
    using c by (rule lookup_register_same)
  moreover have "lat ?rec = js_or (lat old) JNull" "lon ?rec = js_or (lon old) JNull"
    using old by (simp_all add: register_entry_position)
  then have "(truthy (lat old) \<longrightarrow> lat ?rec = lat old) \<and>
           (truthy (lon old) \<longrightarrow> lon ?rec = lon old) \<and>
           (lat old = JNull \<or> lat old = JStr '''' \<longrightarrow> lat ?rec = JNull) \<and>
           (lon old = JNull \<or> lon old = JStr '''' \<longrightarrow> lon ?rec = JNull)"
    by (auto simp: js_or_def)
  ultimately show ?thesis
    by (simp add: register_entry_fields)
qed

text \<open>A second connection registers the id of the sample above.\<close>

theorem register_keeps_truthy_position_witness:
  "conns (run no_numeric_string init
      [Connect ''s1'' None ''10.0.0.1'',
       SensorData ''s1'' (Some (payload_A\<lparr>p_lat := JNum (Num 0), p_lon := JNum (Num 20.5)\<rparr>)) env0]) ''s1'' =
     Some \<lparr>c_ip = ''10.0.0.1'', c_deviceId = JUndefined\<rparr> \<and>
   lookup (run no_numeric_string init
      [Connect ''s1'' None ''10.0.0.1'',
       SensorData ''s1'' (Some (payload_A\<lparr>p_lat := JNum (Num 0), p_lon := JNum (Num 20.5)\<rparr>)) env0])
      (JStr ''A'') =
     Some \<lparr>deviceId = JStr ''A'', ip = JStr ''10.0.0.1'', socketId = JStr ''s1'',
       lastSeen = JStr ''2024-01-01T00:00:00.001Z'', lat = JStr '''', lon = JNum (Num 20.5)\<rparr> \<and>
   truthy (JNum (Num 20.5)) \<and>
   (\<exists>rec. lookup (register ''s2'' (Some payload_A) env1
        (run no_numeric_string init
          [Connect ''s1'' None ''10.0.0.1'',
           SensorData ''s1'' (Some (payload_A\<lparr>p_lat := JNum (Num 0), p_lon := JNum (Num 20.5)\<rparr>)) env0,
           Connect ''s2'' None ''10.0.0.2''])) (JStr ''A'') = Some rec \<and>
      ip rec = JStr ''10.0.0.2'' \<and> socketId rec = JStr ''s2'' \<and>
      lastSeen rec = JStr ''2024-01-01T00:00:05.000Z'' \<and>
      lat rec = JNull \<and> lon rec = JNum (Num 20.5))"
proof -
  let ?pre = "run no_numeric_string init
      [Connect ''s1'' None ''10.0.0.1'',
       SensorData ''s1'' (Some (payload_A\<lparr>p_lat := JNum (Num 0), p_lon := JNum (Num 20.5)\<rparr>)) env0]"
  let ?s = "run no_numeric_string init
      [Connect ''s1'' None ''10.0.0.1'',
       SensorData ''s1'' (Some (payload_A\<lparr>p_lat := JNum (Num 0), p_lon := JNum (Num 20.5)\<rparr>)) env0,
       Connect ''s2'' None ''10.0.0.2'']"
  let ?old = "\<lparr>deviceId = JStr ''A'', ip = JStr ''10.0.0.1'', socketId = JStr ''s1'',
       lastSeen = JStr ''2024-01-01T00:00:00.001Z'', lat = JStr '''', lon = JNum (Num 20.5)\<rparr>"
  have 0: "conns ?pre ''s1'' = Some \<lparr>c_ip = ''10.0.0.1'', c_deviceId = JUndefined\<rparr>"
    "lookup ?pre (JStr ''A'') = Some ?old"
    by (simp_all add: ev_defs)
  have 1: "conns ?s ''s2'' = Some \<lparr>c_ip = ''10.0.0.2'', c_deviceId = JUndefined\<rparr>"
    by (simp add: ev_defs)
  have 2: "register_id (Some payload_A) env1 = JStr ''A''"
    by (simp add: register_id_def js_or_def payload_A_def)
  have 3: "lookup ?s (register_id (Some payload_A) env1) = Some ?old"
    unfolding 2 by (simp add: ev_defs)
  have 4: "truthy (JNum (Num 20.5))" by simp
  from register_keeps_truthy_position [OF 1 3]
  obtain rec where "lookup (register ''s2'' (Some payload_A) env1 ?s) (JStr ''A'') = Some rec"
    "ip rec = JStr ''10.0.0.2''" "socketId rec = JStr ''s2''" "lastSeen rec = JStr (clock env1)"
    "lat rec = JNull" "lon rec = JNum (Num 20.5)"
    unfolding 2 by auto
  then have "\<exists>rec. lookup (register ''s2'' (Some payload_A) env1 ?s) (JStr ''A'') = Some rec \<and>
      ip rec = JStr ''10.0.0.2'' \<and> socketId rec = JStr ''s2'' \<and>
      lastSeen rec = JStr ''2024-01-01T00:00:05.000Z'' \<and>
      lat rec = JNull \<and> lon rec = JNum (Num 20.5)"
    by (simp add: env1_def)
  with 0 4 show ?thesis by blast
qed

section \<open>Snapshots and the store\<close>

lemma serialize_append:
  "\<forall>r \<in> set refs. r < length h \<Longrightarrow> serialize (h @ xs) refs = serialize h refs"
  by (simp add: serialize_def nth_append)

lemma snapshot_refs: "store_ok s \<Longrightarrow> \<forall>r \<in> set (snapshot s). r < length (heap s)"
  by (simp add: store_ok_def snapshot_def)

lemma ref_in_snapshot: "map_of (devices s) k = Some r \<Longrightarrow> r \<in> set (snapshot s)"
  unfolding snapshot_def by (force dest: map_of_SomeD)

lemma register_heap: "\<exists>xs. heap (register sid pl e s) = heap s @ xs"
  by (cases "conns s sid") (simp_all add: register_def Let_def)

text \<open>
  C9, as stated, fails. The array \<^verbatim>\<open>Array.from(devices.values())\<close> taken after a
  first sample reads the position \<open>(10.5, 20.5)\<close>; read again after a second sample for the
  same id, the same array shows \<open>(30, 40)\<close> and the later \<open>lastSeen\<close>. Likewise an array
  taken after a registration shows the cleared \<open>socketId\<close> once the connection has
  disconnected.
\<close>

theorem snapshot_no_aliasing_counterexample:
  "serialize
     (heap (run no_numeric_string init
        [Connect ''s1'' None ''10.0.0.1'',
         SensorData ''s1'' (Some (payload_A\<lparr>p_lat := JNum (Num 10.5), p_lon := JNum (Num 20.5)\<rparr>)) env0]))
     (snapshot (run no_numeric_string init
        [Connect ''s1'' None ''10.0.0.1'',
         SensorData ''s1'' (Some (payload_A\<lparr>p_lat := JNum (Num 10.5), p_lon := JNum (Num 20.5)\<rparr>)) env0])) =
     [\<lparr>deviceId = JStr ''A'', ip = JStr ''10.0.0.1'', socketId = JStr ''s1'',
       lastSeen = JStr ''2024-01-01T00:00:00.001Z'', lat = JNum (Num 10.5), lon = JNum (Num 20.5)\<rparr>] \<and>
   serialize
     (heap (run no_numeric_string init
        [Connect ''s1'' None ''10.0.0.1'',
         SensorData ''s1'' (Some (payload_A\<lparr>p_lat := JNum (Num 10.5), p_lon := JNum (Num 20.5)\<rparr>)) env0,
         SensorData ''s1'' (Some (payload_A\<lparr>p_lat := JNum (Num 30), p_lon := JNum (Num 40)\<rparr>)) env1]))
     (snapshot (run no_numeric_string init
        [Connect ''s1'' None ''10.0.0.1'',
         SensorData ''s1'' (Some (payload_A\<lparr>p_lat := JNum (Num 10.5), p_lon := JNum (Num 20.5)\<rparr>)) env0])) =
     [\<lparr>deviceId = JStr ''A'', ip = JStr ''10.0.0.1'', socketId = JStr ''s1'',
       lastSeen = JStr ''2024-01-01T00:00:05.001Z'', lat = JNum (Num 30), lon = JNum (Num 40)\<rparr>] \<and>
   serialize
     (heap (run no_numeric_string init
        [Connect ''s1'' None ''10.0.0.1'', Register ''s1'' (Some payload_A) env0]))
     (snapshot (run no_numeric_string init
        [Connect ''s1'' None ''10.0.0.1'', Register ''s1'' (Some payload_A) env0])) =
     [\<lparr>deviceId = JStr ''A'', ip = JStr ''10.0.0.1'', socketId = JStr ''s1'',
       lastSeen = JStr ''2024-01-01T00:00:00.000Z'', lat = JNull, lon = JNull\<rparr>] \<and>
   serialize
     (heap (run no_numeric_string init
        [Connect ''s1'' None ''10.0.0.1'', Register ''s1'' (Some payload_A) env0,
         Disconnect ''s1'' env1]))
     (snapshot (run no_numeric_string init
        [Connect ''s1'' None ''10.0.0.1'', Register ''s1'' (Some payload_A) env0])) =
     [\<lparr>deviceId = JStr ''A'', ip = JStr ''10.0.0.1'', socketId = JNull,
       lastSeen = JStr ''2024-01-01T00:00:05.000Z'', lat = JNull, lon = JNull\<rparr>]"
  by (simp add: ev_defs)

text \<open>
  C9, amended. The array is a copy of the sequence of records only. A later
  \<^verbatim>\<open>register\<close> allocates a new object and writes to no other, so an array taken
  before reads as before; and a message is never changed once emitted (later events
  only append messages). But the objects in the array are those of the registry:
  \<^verbatim>\<open>sensor-data\<close> for a known id and \<^verbatim>\<open>disconnect\<close> of a registered
  connection write to the object itself, which an array taken before contains.
\<close>

theorem snapshot_shallow_copy:
  assumes ok: "store_ok s"
  shows "serialize (heap (register sid pl e s)) (snapshot s) = serialize (heap s) (snapshot s) \<and>
         (\<exists>ms. outbox (step N s ev) = outbox s @ ms) \<and>
         (conns s sid = Some c \<and> map_of (devices s) (sample_id c p e) = Some r \<longrightarrow>
            r \<in> set (snapshot s) \<and>
            heap (sensor_data N sid (Some p) e s) ! r =
              (heap s ! r)\<lparr>lastSeen := JStr (clock2 e), lat := row_lat (make_row N c p e),
                 lon := row_lon (make_row N c p e), socketId := JStr sid\<rparr>) \<and>
         (conns s sid = Some c \<and> truthy (c_deviceId c) \<and>
          map_of (devices s) (c_deviceId c) = Some r \<longrightarrow>
            r \<in> set (snapshot s) \<and>
            heap (disconnect sid e s) ! r =
              (heap s ! r)\<lparr>socketId := JNull, lastSeen := JStr (clock e)\<rparr>)"
proof (intro conjI impI)
  obtain xs where "heap (register sid pl e s) = heap s @ xs"
    using register_heap by blast
  then show "serialize (heap (register sid pl e s)) (snapshot s) = serialize (heap s) (snapshot s)"
    using snapshot_refs [OF ok] by (simp add: serialize_append)
next
  show "\<exists>ms. outbox (step N s ev) = outbox s @ ms" by (rule outbox_step)
next
  assume a: "conns s sid = Some c \<and> map_of (devices s) (sample_id c p e) = Some r"
  then show "r \<in> set (snapshot s)" by (blast intro: ref_in_snapshot)
  from a have "r < length (heap s)" using ok by (blast intro: store_ok_ref)
  then show "heap (sensor_data N sid (Some p) e s) ! r =
      (heap s ! r)\<lparr>lastSeen := JStr (clock2 e), lat := row_lat (make_row N c p e),
         lon := row_lon (make_row N c p e), socketId := JStr sid\<rparr>"
    using a by (simp add: sensor_data_known)
next
  assume a: "conns s sid = Some c \<and> truthy (c_deviceId c) \<and> map_of (devices s) (c_deviceId c) = Some r"
  then show "r \<in> set (snapshot s)" by (blast intro: ref_in_snapshot)
  from a have "r < length (heap s)" using ok by (blast intro: store_ok_ref)
  then show "heap (disconnect sid e s) ! r = (heap s ! r)\<lparr>socketId := JNull, lastSeen := JStr (clock e)\<rparr>"
    using a by (simp add: disconnect_known)
qed

text \<open>
  An array taken after one registration, read after a second registration, after a
  sample and after the disconnect.
\<close>

theorem snapshot_shallow_copy_witness:
  "store_ok (run no_numeric_string init
      [Connect ''s1'' None ''10.0.0.1'', Register ''s1'' (Some payload_A) env0,
       Connect ''s2'' None ''10.0.0.2'']) \<and>
   conns (run no_numeric_string init
      [Connect ''s1'' None ''10.0.0.1'', Register ''s1'' (Some payload_A) env0,
       Connect ''s2'' None ''10.0.0.2'']) ''s1'' = Some \<lparr>c_ip = ''10.0.0.1'', c_deviceId = JStr ''A''\<rparr> \<and>
   truthy (JStr ''A'') \<and>
   map_of (devices (run no_numeric_string init
      [Connect ''s1'' None ''10.0.0.1'', Register ''s1'' (Some payload_A) env0,
       Connect ''s2'' None ''10.0.0.2''])) (JStr ''A'') = Some 0 \<and>
   serialize (heap (register ''s2'' (Some payload_A) env1 (run no_numeric_string init
      [Connect ''s1'' None ''10.0.0.1'', Register ''s1'' (Some payload_A) env0,
       Connect ''s2'' None ''10.0.0.2''])))
     (snapshot (run no_numeric_string init
      [Connect ''s1'' None ''10.0.0.1'', Register ''s1'' (Some payload_A) env0,
       Connect ''s2'' None ''10.0.0.2''])) =
     [\<lparr>deviceId = JStr ''A'', ip = JStr ''10.0.0.1'', socketId = JStr ''s1'',
       lastSeen = JStr ''2024-01-01T00:00:00.000Z'', lat = JNull, lon = JNull\<rparr>] \<and>
   heap (sensor_data no_numeric_string ''s1'' (Some payload_B) env1 (run no_numeric_string init
      [Connect ''s1'' None ''10.0.0.1'', Register ''s1'' (Some payload_A) env0,
       Connect ''s2'' None ''10.0.0.2''])) ! 0 =
     \<lparr>deviceId = JStr ''A'', ip = JStr ''10.0.0.1'', socketId = JStr ''s1'',
       lastSeen = JStr ''2024-01-01T00:00:05.001Z'', lat = JStr '''', lon = JStr ''''\<rparr> \<and>
   heap (disconnect ''s1'' env1 (run no_numeric_string init
      [Connect ''s1'' None ''10.0.0.1'', Register ''s1'' (Some payload_A) env0,
       Connect ''s2'' None ''10.0.0.2''])) ! 0 =
     \<lparr>deviceId = JStr ''A'', ip = JStr ''10.0.0.1'', socketId = JNull,
       lastSeen = JStr ''2024-01-01T00:00:05.000Z'', lat = JNull, lon = JNull\<rparr>"
proof -
  let ?st = "run no_numeric_string init
      [Connect ''s1'' None ''10.0.0.1'', Register ''s1'' (Some payload_A) env0,
       Connect ''s2'' None ''10.0.0.2'']"
  let ?c = "\<lparr>c_ip = ''10.0.0.1'', c_deviceId = JStr ''A''\<rparr>"
  let ?old = "\<lparr>deviceId = JStr ''A'', ip = JStr ''10.0.0.1'', socketId = JStr ''s1'',
       lastSeen = JStr ''2024-01-01T00:00:00.000Z'', lat = JNull, lon = JNull\<rparr>"
  have 1: "store_ok ?st"
    by (rule store_ok_run) (rule store_ok_init)
  have 2: "conns ?st ''s1'' = Some ?c"
    by (simp add: ev_defs)
  have 3: "truthy (JStr ''A'')" by simp
  have 4: "map_of (devices ?st) (JStr ''A'') = Some 0"
    by (simp add: ev_defs)
  have 5: "serialize (heap ?st) (snapshot ?st) = [?old]" "heap ?st ! 0 = ?old"
    by (simp_all add: ev_defs)
  have 6: "sample_id ?c payload_B env1 = JStr ''A''" "c_deviceId ?c = JStr ''A''"
    by (simp_all add: sample_id_def js_or_def)
  have 7: "row_lat (make_row no_numeric_string ?c payload_B env1) = JStr ''''"
    "row_lon (make_row no_numeric_string ?c payload_B env1) = JStr ''''"
    by (simp_all add: make_row_def js_or_def payload_B_def)
  note t = snapshot_shallow_copy [OF 1, where sid = "''s2''" and pl = "Some payload_A" and e = env1]
  note u = snapshot_shallow_copy [OF 1, where sid = "''s1''" and c = ?c and p = payload_B and e = env1
      and r = 0 and N = no_numeric_string]
  from t have a: "serialize (heap (register ''s2'' (Some payload_A) env1 ?st)) (snapshot ?st) = [?old]"
    unfolding 5 by blast
  from u 2 4 have b: "heap (sensor_data no_numeric_string ''s1'' (Some payload_B) env1 ?st) ! 0 =
      ?old\<lparr>lastSeen := JStr (clock2 env1), lat := JStr '''', lon := JStr '''', socketId := JStr ''s1''\<rparr>"
    unfolding 5 6 7 by blast
  from u 2 3 4 have c: "heap (disconnect ''s1'' env1 ?st) ! 0 =
      ?old\<lparr>socketId := JNull, lastSeen := JStr (clock env1)\<rparr>"
    unfolding 5 6 by blast
  from a b c 1 2 3 4 show ?thesis by (simp add: env1_def)
qed

section \<open>One record for each device id\<close>

lemma set_update_cases:
  "kr \<in> set (AList.update k v al) \<Longrightarrow> kr = (k, v) \<or> kr \<in> set al"
  by (induction al) (auto split: if_splits)

lemma keyed_cong:
  "heap s' = heap t \<Longrightarrow> devices s' = devices t \<Longrightarrow> keyed s' = keyed t"
  by (simp add: keyed_def)

lemma keyed_init: "keyed init"
  by (simp add: keyed_def init_def)

lemma keyed_alloc:
  assumes ok: "store_ok s" and k: "keyed s" and x: "deviceId x = d"
  shows "keyed (s\<lparr>heap := heap s @ [x], devices := AList.update d (length (heap s)) (devices s)\<rparr>)"
  unfolding keyed_def
proof
  fix kr
  assume "kr \<in> set (devices (s\<lparr>heap := heap s @ [x], devices := AList.update d (length (heap s)) (devices s)\<rparr>))"
  then have "kr = (d, length (heap s)) \<or> kr \<in> set (devices s)"
    by (auto dest: set_update_cases)
  then show "deviceId (heap (s\<lparr>heap := heap s @ [x], devices := AList.update d (length (heap s)) (devices s)\<rparr>) ! snd kr) = fst kr"
  proof
    assume "kr = (d, length (heap s))"
    then show ?thesis using x by simp
  next
    assume in_old: "kr \<in> set (devices s)"
    then have "snd kr < length (heap s)" using ok by (simp add: store_ok_def)
    moreover have "deviceId (heap s ! snd kr) = fst kr" using k in_old by (simp add: keyed_def)
    ultimately show ?thesis by (simp add: nth_append)
  qed
qed

lemma keyed_write:
  assumes k: "keyed s" and x: "deviceId x = deviceId (heap s ! r)"
  shows "keyed (s\<lparr>heap := (heap s)[r := x], devices := devices s\<rparr>)"
  unfolding keyed_def
proof
  fix kr
  assume "kr \<in> set (devices (s\<lparr>heap := (heap s)[r := x], devices := devices s\<rparr>))"
  then have "deviceId (heap s ! snd kr) = fst kr" using k by (simp add: keyed_def)
  moreover have "deviceId ((heap s)[r := x] ! snd kr) = deviceId (heap s ! snd kr)"
    using x by (cases "r < length (heap s)") (auto simp: nth_list_update list_update_beyond)
  ultimately show "deviceId (heap (s\<lparr>heap := (heap s)[r := x], devices := devices s\<rparr>) ! snd kr) = fst kr"
    by simp
qed

lemma keyed_connect: "keyed s \<Longrightarrow> keyed (connect sid q addr s)"
  by (simp add: connect_def Let_def keyed_def)

lemma keyed_register:
  assumes "store_ok s" "keyed s"
  shows "keyed (register sid pl e s)"
proof (cases "conns s sid")
  case None
  then show ?thesis using assms by (simp add: register_def)
next
  case (Some c)
  let ?x = "register_entry s c sid (register_id pl e) e"
  have "keyed (register sid pl e s) =
        keyed (s\<lparr>heap := heap s @ [?x], devices := AList.update (register_id pl e) (length (heap s)) (devices s)\<rparr>)"
    by (rule keyed_cong) (simp_all add: register_heap_devices [OF Some])
  then show ?thesis
    using keyed_alloc [OF assms, of ?x "register_id pl e"] by (simp add: register_entry_fields)
qed

lemma keyed_sensor_data:
  assumes "store_ok s" "keyed s"
  shows "keyed (sensor_data N sid pl e s)"
proof (cases pl)
  case None
  then show ?thesis using assms by (simp add: sensor_data_def)
next
  case (Some p)
  show ?thesis
  proof (cases "conns s sid")
    case None
    then show ?thesis using assms Some by (simp add: sensor_data_def)
  next
    case c: (Some c)
    show ?thesis
    proof (cases "map_of (devices s) (sample_id c p e)")
      case None
      let ?x = "\<lparr>deviceId = sample_id c p e, ip = JStr (c_ip c), socketId = JStr sid,
                      lastSeen = JStr (clock2 e), lat = row_lat (make_row N c p e),
                      lon = row_lon (make_row N c p e)\<rparr>"
      have "keyed (sensor_data N sid (Some p) e s) =
        keyed (s\<lparr>heap := heap s @ [?x], devices := AList.update (sample_id c p e) (length (heap s)) (devices s)\<rparr>)"
        by (rule keyed_cong) (simp_all add: sensor_data_unknown [OF c None])
      then show ?thesis
        using keyed_alloc [OF assms, of ?x "sample_id c p e"] Some by simp
    next
      case r: (Some r)
      let ?x = "(heap s ! r)\<lparr>lastSeen := JStr (clock2 e), lat := row_lat (make_row N c p e),
                       lon := row_lon (make_row N c p e), socketId := JStr sid\<rparr>"
      have "keyed (sensor_data N sid (Some p) e s) =
        keyed (s\<lparr>heap := (heap s)[r := ?x], devices := devices s\<rparr>)"
        by (rule keyed_cong) (simp_all add: sensor_data_known [OF c r])
      then show ?thesis
        using keyed_write [OF assms(2), of ?x r] Some by simp
    qed
  qed
qed

lemma keyed_disconnect:
  assumes "keyed s"
  shows "keyed (disconnect sid e s)"
proof (cases "conns s sid")
  case None
  then show ?thesis using assms by (simp add: disconnect_def)
next
  case c: (Some c)
  show ?thesis
  proof (cases "truthy (c_deviceId c) \<and> map_of (devices s) (c_deviceId c) \<noteq> None")
    case False
    then have "disconnect sid e s = s\<lparr>conns := (conns s)(sid := None)\<rparr>"
      using disconnect_unknown [OF c] by blast
    then show ?thesis using assms by (simp add: keyed_def)
  next
    case True
    then obtain r where r: "map_of (devices s) (c_deviceId c) = Some r" by auto
    from True have t: "truthy (c_deviceId c)" by simp
    let ?x = "(heap s ! r)\<lparr>socketId := JNull, lastSeen := JStr (clock e)\<rparr>"
    have "keyed (disconnect sid e s) = keyed (s\<lparr>heap := (heap s)[r := ?x], devices := devices s\<rparr>)"
      by (rule keyed_cong) (simp_all add: disconnect_known [OF c t r])
    then show ?thesis
      using keyed_write [OF assms, of ?x r] by simp
  qed
qed

lemma keyed_step: "store_ok s \<Longrightarrow> keyed s \<Longrightarrow> keyed (step N s ev)"
  by (cases ev) (simp_all add: keyed_connect keyed_register keyed_sensor_data keyed_disconnect)

lemma keyed_run: "store_ok s \<Longrightarrow> keyed s \<Longrightarrow> keyed (run N s evs)"
proof (induction evs rule: rev_induct)
  case Nil
  then show ?case by (simp add: run_Nil)
next
  case (snoc ev evs)
  then show ?case by (simp add: run_snoc keyed_step store_ok_run)
qed

lemma keyed_listing: "keyed s \<Longrightarrow> map deviceId (list_devices s) = map fst (devices s)"
  by (simp add: keyed_def list_devices_def serialize_def snapshot_def)

text \<open>
  C1. From any state of the registry, let a non-empty sequence of \<^verbatim>\<open>register\<close>
  events be processed, all carrying the same (truthy) device id \<open>d\<close>, each on any open
  connection. Afterwards the registry has exactly one entry keyed by \<open>d\<close>, its listing
  has exactly one record whose \<open>deviceId\<close> is \<open>d\<close>, and the record under \<open>d\<close> has
  \<open>deviceId = d\<close> and the \<open>socketId\<close> of the connection whose \<^verbatim>\<open>register\<close> was
  processed last.
\<close>

theorem register_same_id_one_record:
  assumes ok: "store_ok s"
    and kd: "keyed s"
    and d: "truthy d"
    and ne: "evs \<noteq> []"
    and regs: "\<forall>ev \<in> set evs. registers d ev \<and> conns s (socket_of ev) \<noteq> None"
  shows "count_list (map fst (devices (run N s evs))) d = 1 \<and>
         count_list (map deviceId (list_devices (run N s evs))) d = 1 \<and>
         (\<exists>rec. lookup (run N s evs) d = Some rec \<and> deviceId rec = d \<and>
                socketId rec = JStr (socket_of (last evs)))"
proof -
  from ne obtain evs' ev where evs: "evs = evs' @ [ev]"
    by (cases evs rule: rev_cases) auto
  from regs evs have "registers d ev" by simp
  then obtain sid p e where ev: "ev = Register sid (Some p) e" and p: "p_deviceId p = d"
    by (rule registers_cases)
  let ?s1 = "run N s evs'"
  have cs: "conns s sid \<noteq> None" using regs evs ev by simp
  have "\<forall>x \<in> set evs'. registers d x" using regs evs by simp
  then have "conns ?s1 sid \<noteq> None \<longleftrightarrow> conns s sid \<noteq> None"
    by (rule registers_run_conns)
  with cs have "conns ?s1 sid \<noteq> None" by blast
  then obtain c where c: "conns ?s1 sid = Some c" by auto
  have id: "register_id (Some p) e = d"
    using d p by (simp add: register_id_truthy)
  have fin: "run N s evs = register sid (Some p) e ?s1"
    by (simp add: evs ev run_snoc)
  have look: "lookup (run N s evs) d = Some (register_entry ?s1 c sid d e)"
    using lookup_register_same [OF c, of "Some p" e] by (simp add: fin id)
  then obtain r where r: "map_of (devices (run N s evs)) d = Some r"
    by (auto simp: lookup_def)
  have "store_ok (run N s evs)" using ok by (rule store_ok_run)
  then have "distinct (map fst (devices (run N s evs)))" by (simp add: store_ok_def)
  then have one: "count_list (map fst (devices (run N s evs))) d = 1"
    using r by (rule count_keys_one)
  have "keyed (run N s evs)" using ok kd by (rule keyed_run)
  then have "map deviceId (list_devices (run N s evs)) = map fst (devices (run N s evs))"
    by (rule keyed_listing)
  with one have listed: "count_list (map deviceId (list_devices (run N s evs))) d = 1"
    by simp
  have "socket_of (last evs) = sid" by (simp add: evs ev)
  with look one listed show ?thesis by (simp add: register_entry_fields)
qed

text \<open>
  Two connections register the id \<open>A\<close> one after the other: one record, held by the
  second connection.
\<close>

theorem register_same_id_one_record_witness:
  "store_ok (run no_numeric_string init
      [Connect ''s1'' None ''10.0.0.1'', Connect ''s2'' None ''10.0.0.2'']) \<and>
   keyed (run no_numeric_string init
      [Connect ''s1'' None ''10.0.0.1'', Connect ''s2'' None ''10.0.0.2'']) \<and>
   truthy (JStr ''A'') \<and>
   registers (JStr ''A'') (Register ''s1'' (Some payload_A) env0) \<and>
   registers (JStr ''A'') (Register ''s2'' (Some payload_A) env1) \<and>
   conns (run no_numeric_string init [Connect ''s1'' None ''10.0.0.1'', Connect ''s2'' None ''10.0.0.2''])
     ''s1'' \<noteq> None \<and>
   conns (run no_numeric_string init [Connect ''s1'' None ''10.0.0.1'', Connect ''s2'' None ''10.0.0.2''])
     ''s2'' \<noteq> None \<and>
   count_list (map fst (devices (run no_numeric_string init
      [Connect ''s1'' None ''10.0.0.1'', Connect ''s2'' None ''10.0.0.2'',
       Register ''s1'' (Some payload_A) env0,
       Register ''s2'' (Some payload_A) env1]))) (JStr ''A'') = 1 \<and>
   count_list (map deviceId (list_devices (run no_numeric_string init
      [Connect ''s1'' None ''10.0.0.1'', Connect ''s2'' None ''10.0.0.2'',
       Register ''s1'' (Some payload_A) env0,
       Register ''s2'' (Some payload_A) env1]))) (JStr ''A'') = 1 \<and>
   (\<exists>rec. lookup (run no_numeric_string init
      [Connect ''s1'' None ''10.0.0.1'', Connect ''s2'' None ''10.0.0.2'',
       Register ''s1'' (Some payload_A) env0,
       Register ''s2'' (Some payload_A) env1]) (JStr ''A'') = Some rec \<and>
      deviceId rec = JStr ''A'' \<and> socketId rec = JStr ''s2'')"
proof -
  let ?s = "run no_numeric_string init [Connect ''s1'' None ''10.0.0.1'', Connect ''s2'' None ''10.0.0.2'']"
  let ?evs = "[Register ''s1'' (Some payload_A) env0,
               Register ''s2'' (Some payload_A) env1]"
  have 1: "store_ok ?s"
    by (simp add: run_def connect_def role_of_def init_def store_ok_def)
  have k: "keyed ?s"
    by (rule keyed_run) (rule store_ok_init, rule keyed_init)
  have 2: "truthy (JStr ''A'')" by simp
  have 3: "?evs \<noteq> []" by simp
  have 4: "\<forall>ev \<in> set ?evs. registers (JStr ''A'') ev \<and> conns ?s (socket_of ev) \<noteq> None"
    by (simp add: run_def connect_def role_of_def init_def payload_A_def)
  have 5: "run no_numeric_string ?s ?evs = run no_numeric_string init
      [Connect ''s1'' None ''10.0.0.1'', Connect ''s2'' None ''10.0.0.2'',
       Register ''s1'' (Some payload_A) env0,
       Register ''s2'' (Some payload_A) env1]"
    by (simp add: run_def)
  note r = register_same_id_one_record [OF 1 k 2 3 4, where N = no_numeric_string]
  from r [unfolded 5] 1 k 4 show ?thesis by simp
qed

end
